theory Spec2Isabelle
  imports Main "HOL-Library.List_Lexorder" "HOL-Library.Char_ord" "HOL-Library.Option_ord"
begin

section \<open>Request data: JSON values as Python sees them\<close>

text \<open>
  Flask hands a handler the parsed request body (\<open>request.json\<close>): a Python value
  built from \<open>None\<close>, \<open>bool\<close>, \<open>int\<close>, \<open>str\<close>, \<open>list\<close> and \<open>dict\<close>.
  A \<open>dict\<close> is kept as the list of its items in insertion order; the keys of a
  parsed JSON object are pairwise distinct. Numbers with a fraction part are left out
  of the model.
\<close>

datatype json =
    JNull
  | JBool bool
  | JInt int
  | JStr string
  | JArr "json list"
  | JObj "(string \<times> json) list"

text \<open>The exceptions the handlers can meet.\<close>

datatype exn =
    KeyError string      \<comment> \<open>\<open>d[k]\<close> on a dict without \<open>k\<close>\<close>
  | TypeError            \<comment> \<open>\<open>d[k]\<close> or \<open>for x in d\<close> on a value that supports neither\<close>
  | AttributeError       \<comment> \<open>\<open>d.get\<close>, \<open>d.items\<close> on a value that is not a dict\<close>
  | IntegrityError       \<comment> \<open>\<open>sqlite3.IntegrityError\<close>: a PRIMARY KEY or NOT NULL constraint failed\<close>
  | BindError            \<comment> \<open>sqlite3 refuses to bind a list or a dict as a parameter\<close>
  | OverflowError        \<comment> \<open>an \<open>int\<close> outside the 64-bit range bound as a parameter\<close>
  | FileError            \<comment> \<open>a seed file that exists but cannot be opened or parsed\<close>

definition and_then :: "exn + 'a \<Rightarrow> ('a \<Rightarrow> exn + 'b) \<Rightarrow> exn + 'b" where
  "and_then r f = (case r of Inl e \<Rightarrow> Inl e | Inr v \<Rightarrow> f v)"

text \<open>\<open>d.get(k)\<close>, \<open>d.get(k, default)\<close> and \<open>d[k]\<close>.\<close>

fun py_get :: "json \<Rightarrow> string \<Rightarrow> exn + json" where
  "py_get (JObj kvs) k = Inr (case map_of kvs k of None \<Rightarrow> JNull | Some v \<Rightarrow> v)"
| "py_get _ k = Inl AttributeError"

fun py_get_default :: "json \<Rightarrow> string \<Rightarrow> json \<Rightarrow> exn + json" where
  "py_get_default (JObj kvs) k d = Inr (case map_of kvs k of None \<Rightarrow> d | Some v \<Rightarrow> v)"
| "py_get_default _ k d = Inl AttributeError"

fun py_index :: "json \<Rightarrow> string \<Rightarrow> exn + json" where
  "py_index (JObj kvs) k = (case map_of kvs k of None \<Rightarrow> Inl (KeyError k) | Some v \<Rightarrow> Inr v)"
| "py_index _ k = Inl TypeError"

text \<open>Python truth value, as \<open>not x\<close> tests it.\<close>

fun truthy :: "json \<Rightarrow> bool" where
  "truthy JNull = False"
| "truthy (JBool b) = b"
| "truthy (JInt n) = (n \<noteq> 0)"
| "truthy (JStr s) = (s \<noteq> [])"
| "truthy (JArr xs) = (xs \<noteq> [])"
| "truthy (JObj kvs) = (kvs \<noteq> [])"

section \<open>The store: four tables of TEXT columns\<close>

text \<open>
  Every column of the schema is declared TEXT, so a stored value is NULL (\<open>None\<close>) or a
  text. SQL equality is never true when a side is NULL.
\<close>

type_synonym sqltext = "string option"

fun sql_eq :: "sqltext \<Rightarrow> sqltext \<Rightarrow> bool" where
  "sql_eq (Some a) (Some b) = (a = b)"
| "sql_eq _ _ = False"

text \<open>
  Binding a Python value as a statement parameter for a TEXT column, or comparing it
  with one: \<open>None\<close> is NULL, a \<open>str\<close> is itself, an \<open>int\<close> (and a \<open>bool\<close>, which
  is an \<open>int\<close>) is bound as a 64-bit integer and turned into its decimal text by the
  column's TEXT affinity; a list or a dict cannot be bound.
\<close>

fun digits :: "nat \<Rightarrow> string" where
  "digits n = (if n < 10 then [''0123456789'' ! n]
               else digits (n div 10) @ [''0123456789'' ! (n mod 10)])"

declare digits.simps [simp del]

definition decimal :: "int \<Rightarrow> string" where
  "decimal i = (if i < 0 then CHR ''-'' # digits (nat (- i)) else digits (nat i))"

fun bind_text :: "json \<Rightarrow> exn + sqltext" where
  "bind_text JNull = Inr None"
| "bind_text (JBool b) = Inr (Some (if b then ''1'' else ''0''))"
| "bind_text (JInt n) =
     (if - (2 ^ 63) \<le> n \<and> n < 2 ^ 63 then Inr (Some (decimal n)) else Inl OverflowError)"
| "bind_text (JStr s) = Inr (Some s)"
| "bind_text (JArr xs) = Inl BindError"
| "bind_text (JObj kvs) = Inl BindError"

record user =
  password :: sqltext
  role :: sqltext

record competition =
  comp_name :: sqltext
  comp_date :: sqltext
  comp_location :: sqltext
  comp_description :: sqltext
  comp_status :: sqltext

record competitor =
  ctor_id :: sqltext
  ctor_name :: sqltext
  ctor_nationality :: sqltext
  ctor_status :: sqltext

record competition_competitor =
  competition_name :: sqltext
  competitor_id :: sqltext

record database =
  users :: "user list"
  competitions :: "competition list"
  competitors :: "competitor list"
  competition_competitors :: "competition_competitor list"

text \<open>
  The composite primary key of \<open>competition_competitors\<close>. SQLite lets the columns of
  a PRIMARY KEY be NULL in an ordinary table, and a key with a NULL part never
  collides with another.
\<close>

definition link_key :: "competition_competitor \<Rightarrow> (string \<times> string) option" where
  "link_key cc =
     (case competition_name cc of
        None \<Rightarrow> None
      | Some a \<Rightarrow> (case competitor_id cc of None \<Rightarrow> None | Some b \<Rightarrow> Some (a, b)))"

subsection \<open>Statements on one table\<close>

text \<open>
  A table is the list of its rows in rowid order. \<open>key\<close> reads a row's primary key;
  a NULL key collides with nothing.
\<close>

definition pk_conflict :: "('r \<Rightarrow> 'k option) \<Rightarrow> 'r \<Rightarrow> 'r list \<Rightarrow> bool" where
  "pk_conflict key r others = (key r \<noteq> None \<and> key r \<in> set (map key others))"

text \<open>\<open>INSERT INTO t VALUES ...\<close>: the row is appended, or the statement fails.\<close>

definition insert_row :: "('r \<Rightarrow> 'k option) \<Rightarrow> 'r \<Rightarrow> 'r list \<Rightarrow> exn + 'r list" where
  "insert_row key r t = (if pk_conflict key r t then Inl IntegrityError else Inr (t @ [r]))"

text \<open>\<open>INSERT OR IGNORE\<close>: a row that violates a constraint is skipped.\<close>

definition insert_or_ignore :: "('r \<Rightarrow> 'k option) \<Rightarrow> 'r \<Rightarrow> 'r list \<Rightarrow> 'r list" where
  "insert_or_ignore key r t = (if pk_conflict key r t then t else t @ [r])"

text \<open>\<open>DELETE FROM t WHERE col = ?\<close>.\<close>

definition delete_where :: "('r \<Rightarrow> sqltext) \<Rightarrow> sqltext \<Rightarrow> 'r list \<Rightarrow> 'r list" where
  "delete_where col v t = filter (\<lambda>r. \<not> sql_eq (col r) v) t"

text \<open>
  \<open>UPDATE t SET ... WHERE ...\<close>: the rows the WHERE clause selects are rewritten one
  after the other, in rowid order; each new row is checked against all the other rows
  of the table as it stands at that moment (\<open>seen\<close>: the rows already passed, rewritten
  or not; the rest: not yet visited). The first collision aborts the statement, which
  then changes nothing.
\<close>

fun update_where ::
  "('r \<Rightarrow> 'k option) \<Rightarrow> ('r \<Rightarrow> bool) \<Rightarrow> ('r \<Rightarrow> 'r) \<Rightarrow> 'r list \<Rightarrow> 'r list \<Rightarrow> exn + 'r list" where
  "update_where key hit f seen [] = Inr seen"
| "update_where key hit f seen (r # rs) =
     (if hit r then
        (if pk_conflict key (f r) (seen @ rs) then Inl IntegrityError
         else update_where key hit f (seen @ [f r]) rs)
      else update_where key hit f (seen @ [r]) rs)"

text \<open>The table \<open>users\<close> also declares \<open>role\<close> NOT NULL.\<close>

definition insert_user_row :: "user \<Rightarrow> user list \<Rightarrow> exn + user list" where
  "insert_user_row r t = (if role r = None then Inl IntegrityError else insert_row password r t)"

definition insert_or_ignore_user :: "user \<Rightarrow> user list \<Rightarrow> user list" where
  "insert_or_ignore_user r t = (if role r = None then t else insert_or_ignore password r t)"

subsection \<open>The SQL statements of the handlers\<close>

text \<open>
  Each statement binds its parameters first (left to right) and then runs; a statement
  that fails leaves the store as it was.
\<close>

definition sql_insert_users :: "json \<Rightarrow> json \<Rightarrow> database \<Rightarrow> exn + database" where
  \<comment> \<open>\<open>INSERT INTO users (password, role) VALUES (?, ?)\<close>\<close>
  "sql_insert_users pw rl db =
     and_then (bind_text pw) (\<lambda>p.
     and_then (bind_text rl) (\<lambda>r.
     and_then (insert_user_row \<lparr>password = p, role = r\<rparr> (users db)) (\<lambda>t.
     Inr (db\<lparr>users := t\<rparr>))))"

definition sql_delete_users :: "json \<Rightarrow> database \<Rightarrow> exn + database" where
  \<comment> \<open>\<open>DELETE FROM users WHERE password = ?\<close>\<close>
  "sql_delete_users pw db =
     and_then (bind_text pw) (\<lambda>p. Inr (db\<lparr>users := delete_where password p (users db)\<rparr>))"

definition sql_insert_competitions ::
  "json \<Rightarrow> json \<Rightarrow> json \<Rightarrow> json \<Rightarrow> json \<Rightarrow> database \<Rightarrow> exn + database" where
  \<comment> \<open>\<open>INSERT INTO competitions (name, date, location, description, status) VALUES (?, ?, ?, ?, ?)\<close>\<close>
  "sql_insert_competitions n d l ds s db =
     and_then (bind_text n) (\<lambda>n'.
     and_then (bind_text d) (\<lambda>d'.
     and_then (bind_text l) (\<lambda>l'.
     and_then (bind_text ds) (\<lambda>ds'.
     and_then (bind_text s) (\<lambda>s'.
     and_then (insert_row comp_name
        \<lparr>comp_name = n', comp_date = d', comp_location = l', comp_description = ds',
         comp_status = s'\<rparr> (competitions db)) (\<lambda>t.
     Inr (db\<lparr>competitions := t\<rparr>)))))))"

definition sql_delete_competitions :: "json \<Rightarrow> database \<Rightarrow> exn + database" where
  \<comment> \<open>\<open>DELETE FROM competitions WHERE name = ?\<close>\<close>
  "sql_delete_competitions n db =
     and_then (bind_text n) (\<lambda>n'.
     Inr (db\<lparr>competitions := delete_where comp_name n' (competitions db)\<rparr>))"

definition sql_update_competitions ::
  "json \<Rightarrow> json \<Rightarrow> json \<Rightarrow> json \<Rightarrow> json \<Rightarrow> json \<Rightarrow> database \<Rightarrow> exn + database" where
  \<comment> \<open>\<open>UPDATE competitions SET name = ?, date = ?, location = ?, description = ?, status = ? WHERE name = ?\<close>\<close>
  "sql_update_competitions n d l ds s orig db =
     and_then (bind_text n) (\<lambda>n'.
     and_then (bind_text d) (\<lambda>d'.
     and_then (bind_text l) (\<lambda>l'.
     and_then (bind_text ds) (\<lambda>ds'.
     and_then (bind_text s) (\<lambda>s'.
     and_then (bind_text orig) (\<lambda>orig'.
     and_then (update_where comp_name (\<lambda>c. sql_eq (comp_name c) orig')
        (\<lambda>c. c\<lparr>comp_name := n', comp_date := d', comp_location := l',
               comp_description := ds', comp_status := s'\<rparr>)
        [] (competitions db)) (\<lambda>t.
     Inr (db\<lparr>competitions := t\<rparr>))))))))"

definition sql_insert_competitors ::
  "json \<Rightarrow> json \<Rightarrow> json \<Rightarrow> json \<Rightarrow> database \<Rightarrow> exn + database" where
  \<comment> \<open>\<open>INSERT INTO competitors (id, name, nationality, status) VALUES (?, ?, ?, ?)\<close>\<close>
  "sql_insert_competitors i n nl s db =
     and_then (bind_text i) (\<lambda>i'.
     and_then (bind_text n) (\<lambda>n'.
     and_then (bind_text nl) (\<lambda>nl'.
     and_then (bind_text s) (\<lambda>s'.
     and_then (insert_row ctor_id
        \<lparr>ctor_id = i', ctor_name = n', ctor_nationality = nl', ctor_status = s'\<rparr>
        (competitors db)) (\<lambda>t.
     Inr (db\<lparr>competitors := t\<rparr>))))))"

definition sql_delete_competitors :: "json \<Rightarrow> database \<Rightarrow> exn + database" where
  \<comment> \<open>\<open>DELETE FROM competitors WHERE id = ?\<close>\<close>
  "sql_delete_competitors i db =
     and_then (bind_text i) (\<lambda>i'.
     Inr (db\<lparr>competitors := delete_where ctor_id i' (competitors db)\<rparr>))"

definition sql_update_competitors ::
  "json \<Rightarrow> json \<Rightarrow> json \<Rightarrow> json \<Rightarrow> json \<Rightarrow> database \<Rightarrow> exn + database" where
  \<comment> \<open>\<open>UPDATE competitors SET name = ?, id = ?, nationality = ?, status = ? WHERE id = ?\<close>\<close>
  "sql_update_competitors n i nl s orig db =
     and_then (bind_text n) (\<lambda>n'.
     and_then (bind_text i) (\<lambda>i'.
     and_then (bind_text nl) (\<lambda>nl'.
     and_then (bind_text s) (\<lambda>s'.
     and_then (bind_text orig) (\<lambda>orig'.
     and_then (update_where ctor_id (\<lambda>c. sql_eq (ctor_id c) orig')
        (\<lambda>c. c\<lparr>ctor_name := n', ctor_id := i', ctor_nationality := nl', ctor_status := s'\<rparr>)
        [] (competitors db)) (\<lambda>t.
     Inr (db\<lparr>competitors := t\<rparr>)))))))"

definition sql_insert_competition_competitors :: "json \<Rightarrow> json \<Rightarrow> database \<Rightarrow> exn + database" where
  \<comment> \<open>\<open>INSERT INTO competition_competitors (competition_name, competitor_id) VALUES (?, ?)\<close>;
      the FOREIGN KEY clauses of the table are not enforced: the connection never
      turns \<open>PRAGMA foreign_keys\<close> on\<close>
  "sql_insert_competition_competitors cn ci db =
     and_then (bind_text cn) (\<lambda>cn'.
     and_then (bind_text ci) (\<lambda>ci'.
     and_then (insert_row link_key \<lparr>competition_name = cn', competitor_id = ci'\<rparr>
        (competition_competitors db)) (\<lambda>t.
     Inr (db\<lparr>competition_competitors := t\<rparr>))))"

definition sql_update_competition_competitors :: "json \<Rightarrow> json \<Rightarrow> database \<Rightarrow> exn + database" where
  \<comment> \<open>\<open>UPDATE competition_competitors SET competitor_id = ? WHERE competitor_id = ?\<close>\<close>
  "sql_update_competition_competitors i orig db =
     and_then (bind_text i) (\<lambda>i'.
     and_then (bind_text orig) (\<lambda>orig'.
     and_then (update_where link_key (\<lambda>cc. sql_eq (competitor_id cc) orig')
        (\<lambda>cc. cc\<lparr>competitor_id := i'\<rparr>) [] (competition_competitors db)) (\<lambda>t.
     Inr (db\<lparr>competition_competitors := t\<rparr>))))"

section \<open>Responses\<close>

text \<open>
  A response is the HTTP status and the JSON document. \<open>Result\<close> is
  \<open>{success, message}\<close>; \<open>ExnResult p e\<close> is \<open>{success: false, message: p + str(e)}\<close>;
  \<open>LoginResult m r\<close> is \<open>{success: true, message: m, role: r}\<close>; the lists
  are the rows of a SELECT, one JSON object for each row;
  \<open>ServerError e\<close> is what Flask answers when \<open>e\<close> escapes the handler.
\<close>

datatype payload =
    Result bool string
  | ExnResult string exn
  | LoginResult string sqltext
  | UserList "user list"
  | CompetitionList "competition list"
  | CompetitorList "competitor list"
  | NameNationalityList "(sqltext \<times> sqltext) list"
  | Profile competitor "(sqltext \<times> sqltext \<times> sqltext) list"
  | ServerError exn

type_synonym response = "nat \<times> payload"

definition crash :: "exn \<Rightarrow> response" where
  "crash e = (500, ServerError e)"

section \<open>Handlers\<close>

text \<open>
  A handler takes the request body (or the URL parameter) and the committed store, and
  returns the response and the store as committed afterwards. Changes made before an
  exception are never committed: the connection is closed at the end of the request.
\<close>

subsection \<open>Users\<close>

definition login :: "json \<Rightarrow> database \<Rightarrow> response" where
  "login body db =
     (case and_then (py_get body ''password'') bind_text of
        Inl e \<Rightarrow> crash e
      | Inr p \<Rightarrow>
          (case find (\<lambda>u. sql_eq (password u) p) (users db) of
             Some user \<Rightarrow> (200, LoginResult ''Login successful.'' (role user))
           | None \<Rightarrow> (200, Result False ''Invalid password.'')))"

definition signup :: "json \<Rightarrow> database \<Rightarrow> response \<times> database" where
  "signup body db =
     (case py_get body ''password'' of
        Inl e \<Rightarrow> (crash e, db)
      | Inr pw \<Rightarrow>
          (case sql_insert_users pw (JStr ''general'') db of
             Inr db' \<Rightarrow>
               ((200, Result True ''User created successfully. You can now log in.''), db')
           | Inl e \<Rightarrow>
               if e = IntegrityError then ((200, Result False ''User already exists.''), db)
               else (crash e, db)))"

definition get_users :: "database \<Rightarrow> response" where
  "get_users db = (200, UserList (users db))"

definition add_user :: "json \<Rightarrow> database \<Rightarrow> response \<times> database" where
  "add_user body db =
     (case py_get body ''password'' of
        Inl e \<Rightarrow> (crash e, db)
      | Inr pw \<Rightarrow>
          (case py_get_default body ''role'' (JStr ''general'') of
             Inl e \<Rightarrow> (crash e, db)
           | Inr rl \<Rightarrow>
               (case sql_insert_users pw rl db of
                  Inr db' \<Rightarrow> ((200, Result True ''User added successfully.''), db')
                | Inl e \<Rightarrow>
                    if e = IntegrityError then ((200, Result False ''User already exists.''), db)
                    else (crash e, db))))"

definition remove_user :: "json \<Rightarrow> database \<Rightarrow> response \<times> database" where
  "remove_user body db =
     (case and_then (py_get body ''password'') (\<lambda>pw. sql_delete_users pw db) of
        Inl e \<Rightarrow> (crash e, db)
      | Inr db' \<Rightarrow> ((200, Result True ''User removed successfully.''), db'))"

subsection \<open>Competitions\<close>

definition get_competitions :: "database \<Rightarrow> response" where
  "get_competitions db = (200, CompetitionList (competitions db))"

definition add_competition :: "json \<Rightarrow> database \<Rightarrow> response \<times> database" where
  "add_competition data db =
     (case and_then (py_index data ''name'') (\<lambda>n.
           and_then (py_index data ''date'') (\<lambda>d.
           and_then (py_index data ''location'') (\<lambda>l.
           and_then (py_index data ''description'') (\<lambda>ds.
           sql_insert_competitions n d l ds (JStr ''Upcoming'') db)))) of
        Inr db' \<Rightarrow> ((200, Result True ''Competition added successfully.''), db')
      | Inl e \<Rightarrow>
          if e = IntegrityError
          then ((200, Result False ''Competition with this name already exists.''), db)
          else (crash e, db))"

definition remove_competition :: "json \<Rightarrow> database \<Rightarrow> response \<times> database" where
  "remove_competition body db =
     (case and_then (py_get body ''name'') (\<lambda>n. sql_delete_competitions n db) of
        Inl e \<Rightarrow> (crash e, db)
      | Inr db' \<Rightarrow> ((200, Result True ''Competition removed successfully.''), db'))"

definition edit_competition :: "json \<Rightarrow> database \<Rightarrow> response \<times> database" where
  "edit_competition data db =
     (case and_then (py_index data ''new_name'') (\<lambda>new_name.
           and_then (py_index data ''new_date'') (\<lambda>new_date.
           and_then (py_index data ''new_location'') (\<lambda>new_location.
           and_then (py_index data ''new_description'') (\<lambda>new_description.
           and_then (py_index data ''new_status'') (\<lambda>new_status.
           and_then (py_index data ''original_name'') (\<lambda>original_name.
           sql_update_competitions new_name new_date new_location new_description
             new_status original_name db)))))) of
        Inr db' \<Rightarrow> ((200, Result True ''Competition updated successfully.''), db')
      | Inl e \<Rightarrow> ((200, ExnResult [] e), db))"

text \<open>
  The PRIMARY KEY of \<open>competition_competitors\<close> is kept as an index whose entries are
  ordered by competition name, then by competitor id, then by rowid; NULL comes before
  every text, and texts are compared byte by byte.
\<close>

definition competition_competitors_index ::
  "competition_competitor list \<Rightarrow> competition_competitor list" where
  "competition_competitors_index t = sort_key competition_name (sort_key competitor_id t)"

text \<open>
  The join of \<open>competitors\<close> with \<open>competition_competitors\<close>: the query walks the
  entries of the index that carry the competition name, in index order, and looks up
  the competitor of each by its id.
\<close>

definition get_competition_competitors :: "string \<Rightarrow> database \<Rightarrow> response" where
  "get_competition_competitors cname db =
     (200, NameNationalityList
        [(ctor_name c, ctor_nationality c).
           cc \<leftarrow> competition_competitors_index (competition_competitors db),
           sql_eq (competition_name cc) (Some cname),
           c \<leftarrow> competitors db, sql_eq (ctor_id c) (competitor_id cc)])"

definition add_competitor_to_competition :: "json \<Rightarrow> database \<Rightarrow> response \<times> database" where
  "add_competitor_to_competition data db =
     (case py_get data ''competition_name'' of
        Inl e \<Rightarrow> (crash e, db)
      | Inr cn \<Rightarrow>
          (case py_get data ''competitor_id'' of
             Inl e \<Rightarrow> (crash e, db)
           | Inr ci \<Rightarrow>
               if \<not> truthy cn \<or> \<not> truthy ci
               then ((200, Result False ''Competition name and competitor ID are required.''), db)
               else
                 (case sql_insert_competition_competitors cn ci db of
                    Inr db' \<Rightarrow> ((200, Result True ''Competitor assigned successfully.''), db')
                  | Inl e \<Rightarrow>
                      if e = IntegrityError
                      then ((200, Result False
                               ''Competitor is already assigned to this competition.''), db)
                      else ((200, ExnResult ''An error occurred: '' e), db))))"

subsection \<open>Competitors\<close>

definition get_competitors :: "database \<Rightarrow> response" where
  "get_competitors db = (200, CompetitorList (competitors db))"

definition get_competitor_profile :: "string \<Rightarrow> database \<Rightarrow> response" where
  "get_competitor_profile cid db =
     (case find (\<lambda>c. sql_eq (ctor_id c) (Some cid)) (competitors db) of
        None \<Rightarrow> (404, Result False ''Competitor not found.'')
      | Some competitor \<Rightarrow>
          (200, Profile competitor
             [(comp_name c, comp_date c, comp_location c).
                cc \<leftarrow> competition_competitors db, sql_eq (competitor_id cc) (Some cid),
                c \<leftarrow> competitions db, sql_eq (comp_name c) (competition_name cc)]))"

definition add_competitor :: "json \<Rightarrow> database \<Rightarrow> response \<times> database" where
  "add_competitor data db =
     (case and_then (py_index data ''id'') (\<lambda>i.
           and_then (py_index data ''name'') (\<lambda>n.
           and_then (py_index data ''nationality'') (\<lambda>nl.
           and_then (py_index data ''status'') (\<lambda>s.
           sql_insert_competitors i n nl s db)))) of
        Inr db' \<Rightarrow> ((200, Result True ''Competitor added successfully.''), db')
      | Inl e \<Rightarrow>
          if e = IntegrityError
          then ((200, Result False ''Competitor with this ID already exists.''), db)
          else (crash e, db))"

definition remove_competitor :: "json \<Rightarrow> database \<Rightarrow> response \<times> database" where
  "remove_competitor body db =
     (case and_then (py_get body ''id'') (\<lambda>i. sql_delete_competitors i db) of
        Inl e \<Rightarrow> (crash e, db)
      | Inr db' \<Rightarrow> ((200, Result True ''Competitor removed successfully.''), db'))"

text \<open>
  Both UPDATE statements of \<open>edit_competitor\<close> and the reading of the five fields
  stand inside one \<open>try\<close>; any exception is answered with its text, and nothing is
  committed.
\<close>

definition edit_competitor :: "json \<Rightarrow> database \<Rightarrow> response \<times> database" where
  "edit_competitor data db =
     (case and_then (py_index data ''new_name'') (\<lambda>new_name.
           and_then (py_index data ''new_id'') (\<lambda>new_id.
           and_then (py_index data ''new_nationality'') (\<lambda>new_nationality.
           and_then (py_index data ''new_status'') (\<lambda>new_status.
           and_then (py_index data ''original_id'') (\<lambda>original_id.
           and_then (sql_update_competitors new_name new_id new_nationality new_status
                       original_id db) (\<lambda>db1.
           sql_update_competition_competitors new_id original_id db1)))))) of
        Inr db2 \<Rightarrow> ((200, Result True ''Competitor updated successfully.''), db2)
      | Inl e \<Rightarrow> ((200, ExnResult [] e), db))"

section \<open>Seeding the store at start\<close>

text \<open>
  A seed file is absent (\<open>os.path.exists\<close> is false), present but not readable as
  JSON (\<open>open\<close> or \<open>json.load\<close> raises), or present with a document.
\<close>

datatype seed_file = Missing | Unreadable | Document json

record seed_files =
  users_json :: seed_file
  competitions_json :: seed_file
  competitors_json :: seed_file

fun json_load :: "seed_file \<Rightarrow> exn + json" where
  "json_load (Document j) = Inr j"
| "json_load _ = Inl FileError"

text \<open>
  \<open>d.items()\<close>, \<open>k in d\<close> for a dict, and \<open>for x in v\<close>: a list gives its
  elements, a dict its keys, a string its characters.
\<close>

fun py_items :: "json \<Rightarrow> exn + (string \<times> json) list" where
  "py_items (JObj kvs) = Inr kvs"
| "py_items _ = Inl AttributeError"

fun py_iter :: "json \<Rightarrow> exn + json list" where
  "py_iter (JArr xs) = Inr xs"
| "py_iter (JObj kvs) = Inr (map (\<lambda>kv. JStr (fst kv)) kvs)"
| "py_iter (JStr s) = Inr (map (\<lambda>c. JStr [c]) s)"
| "py_iter _ = Inl TypeError"

fun has_key :: "json \<Rightarrow> string \<Rightarrow> bool" where
  "has_key (JObj kvs) k = (k \<in> set (map fst kvs))"
| "has_key _ k = False"

definition sql_insert_or_ignore_users :: "json \<Rightarrow> json \<Rightarrow> database \<Rightarrow> exn + database" where
  \<comment> \<open>\<open>INSERT OR IGNORE INTO users (password, role) VALUES (?, ?)\<close>\<close>
  "sql_insert_or_ignore_users pw rl db =
     and_then (bind_text pw) (\<lambda>p.
     and_then (bind_text rl) (\<lambda>r.
     Inr (db\<lparr>users := insert_or_ignore_user \<lparr>password = p, role = r\<rparr> (users db)\<rparr>)))"

definition sql_insert_or_ignore_competitions ::
  "json \<Rightarrow> json \<Rightarrow> json \<Rightarrow> json \<Rightarrow> json \<Rightarrow> database \<Rightarrow> exn + database" where
  \<comment> \<open>\<open>INSERT OR IGNORE INTO competitions (name, date, location, description, status) VALUES (?, ?, ?, ?, ?)\<close>\<close>
  "sql_insert_or_ignore_competitions n d l ds s db =
     and_then (bind_text n) (\<lambda>n'.
     and_then (bind_text d) (\<lambda>d'.
     and_then (bind_text l) (\<lambda>l'.
     and_then (bind_text ds) (\<lambda>ds'.
     and_then (bind_text s) (\<lambda>s'.
     Inr (db\<lparr>competitions := insert_or_ignore comp_name
        \<lparr>comp_name = n', comp_date = d', comp_location = l', comp_description = ds',
         comp_status = s'\<rparr> (competitions db)\<rparr>))))))"

definition sql_insert_or_ignore_competitors ::
  "json \<Rightarrow> json \<Rightarrow> json \<Rightarrow> json \<Rightarrow> database \<Rightarrow> exn + database" where
  \<comment> \<open>\<open>INSERT OR IGNORE INTO competitors (id, name, nationality, status) VALUES (?, ?, ?, ?)\<close>\<close>
  "sql_insert_or_ignore_competitors i n nl s db =
     and_then (bind_text i) (\<lambda>i'.
     and_then (bind_text n) (\<lambda>n'.
     and_then (bind_text nl) (\<lambda>nl'.
     and_then (bind_text s) (\<lambda>s'.
     Inr (db\<lparr>competitors := insert_or_ignore ctor_id
        \<lparr>ctor_id = i', ctor_name = n', ctor_nationality = nl', ctor_status = s'\<rparr>
        (competitors db)\<rparr>)))))"

definition sql_insert_or_ignore_competition_competitors ::
  "json \<Rightarrow> json \<Rightarrow> database \<Rightarrow> exn + database" where
  \<comment> \<open>\<open>INSERT OR IGNORE INTO competition_competitors (competition_name, competitor_id) VALUES (?, ?)\<close>\<close>
  "sql_insert_or_ignore_competition_competitors cn ci db =
     and_then (bind_text cn) (\<lambda>cn'.
     and_then (bind_text ci) (\<lambda>ci'.
     Inr (db\<lparr>competition_competitors := insert_or_ignore link_key
        \<lparr>competition_name = cn', competitor_id = ci'\<rparr> (competition_competitors db)\<rparr>)))"

text \<open>The three loops of \<open>load_initial_data\<close> over the items of a document.\<close>

fun load_users :: "(string \<times> json) list \<Rightarrow> database \<Rightarrow> exn + database" where
  "load_users [] db = Inr db"
| "load_users ((pw, details) # rest) db =
     and_then (py_index details ''role'') (\<lambda>rl.
     and_then (sql_insert_or_ignore_users (JStr pw) rl db) (load_users rest))"

fun load_competitor_ids :: "json \<Rightarrow> json list \<Rightarrow> database \<Rightarrow> exn + database" where
  "load_competitor_ids n [] db = Inr db"
| "load_competitor_ids n (comp_id # rest) db =
     and_then (sql_insert_or_ignore_competition_competitors n comp_id db)
       (load_competitor_ids n rest)"

fun load_competitions :: "(string \<times> json) list \<Rightarrow> database \<Rightarrow> exn + database" where
  "load_competitions [] db = Inr db"
| "load_competitions ((name, details) # rest) db =
     and_then (py_index details ''name'') (\<lambda>n.
     and_then (py_index details ''date'') (\<lambda>d.
     and_then (py_index details ''location'') (\<lambda>l.
     and_then (py_index details ''description'') (\<lambda>ds.
     and_then (py_index details ''status'') (\<lambda>s.
     and_then (sql_insert_or_ignore_competitions n d l ds s db) (\<lambda>db1.
     and_then
       (if has_key details ''competitor_ids''
        then and_then (py_index details ''competitor_ids'') (\<lambda>ids.
             and_then (py_iter ids) (\<lambda>xs. load_competitor_ids n xs db1))
        else Inr db1)
       (load_competitions rest)))))))"

fun load_competitors :: "(string \<times> json) list \<Rightarrow> database \<Rightarrow> exn + database" where
  "load_competitors [] db = Inr db"
| "load_competitors ((comp_id, details) # rest) db =
     and_then (py_index details ''id'') (\<lambda>i.
     and_then (py_index details ''name'') (\<lambda>n.
     and_then (py_index details ''nationality'') (\<lambda>nl.
     and_then (py_index details ''status'') (\<lambda>s.
     and_then (sql_insert_or_ignore_competitors i n nl s db) (load_competitors rest)))))"

text \<open>
  \<open>load_initial_data\<close> works on a connection of its own and commits once, at the
  end; when it returns False nothing it inserted is kept.
\<close>

definition load_initial_data :: "seed_files \<Rightarrow> database \<Rightarrow> bool \<times> database" where
  "load_initial_data fs db =
     (if users_json fs = Missing \<or> competitions_json fs = Missing
         \<or> competitors_json fs = Missing
      then (False, db)
      else
        (case and_then (json_load (users_json fs)) (\<lambda>users_data.
              and_then (py_items users_data) (\<lambda>us.
              and_then (load_users us db) (\<lambda>db1.
              and_then (json_load (competitions_json fs)) (\<lambda>competitions_data.
              and_then (py_items competitions_data) (\<lambda>cs.
              and_then (load_competitions cs db1) (\<lambda>db2.
              and_then (json_load (competitors_json fs)) (\<lambda>competitors_data.
              and_then (py_items competitors_data) (\<lambda>ps.
              load_competitors ps db2)))))))) of
           Inr db3 \<Rightarrow> (True, db3)
         | Inl e \<Rightarrow> (False, db)))"

definition default_competitions :: "competition list" where
  "default_competitions =
     [\<lparr>comp_name = Some ''Winter Grand Prix'', comp_date = Some ''March 1, 2025'',
       comp_location = Some ''London, UK'',
       comp_description = Some ''The inaugural Winter Grand Prix in the heart of London.'',
       comp_status = Some ''Completed''\<rparr>,
      \<lparr>comp_name = Some ''Spring Cup Championship'', comp_date = Some ''May 15, 2025'',
       comp_location = Some ''Paris, France'',
       comp_description = Some ''An exciting championship for upcoming talents.'',
       comp_status = Some ''Upcoming''\<rparr>,
      \<lparr>comp_name = Some ''Summer Open'', comp_date = Some ''July 20, 2025'',
       comp_location = Some ''Tokyo, Japan'',
       comp_description = Some ''The biggest event of the year.'',
       comp_status = Some ''Upcoming''\<rparr>]"

definition default_competitors :: "competitor list" where
  "default_competitors =
     [\<lparr>ctor_id = Some ''COMP-001'', ctor_name = Some ''Alex Smith'',
       ctor_nationality = Some ''American'', ctor_status = Some ''Active''\<rparr>,
      \<lparr>ctor_id = Some ''COMP-002'', ctor_name = Some ''Maria Garcia'',
       ctor_nationality = Some ''Spanish'', ctor_status = Some ''Active''\<rparr>,
      \<lparr>ctor_id = Some ''COMP-003'', ctor_name = Some ''Kenji Tanaka'',
       ctor_nationality = Some ''Japanese'', ctor_status = Some ''Active''\<rparr>]"

definition default_competition_competitors :: "competition_competitor list" where
  "default_competition_competitors =
     [\<lparr>competition_name = Some ''Winter Grand Prix'', competitor_id = Some ''COMP-001''\<rparr>,
      \<lparr>competition_name = Some ''Winter Grand Prix'', competitor_id = Some ''COMP-002''\<rparr>,
      \<lparr>competition_name = Some ''Spring Cup Championship'', competitor_id = Some ''COMP-001''\<rparr>,
      \<lparr>competition_name = Some ''Summer Open'', competitor_id = Some ''COMP-003''\<rparr>]"

text \<open>\<open>executemany\<close> runs the statement once for each row of the list, in order.\<close>

definition executemany :: "('r \<Rightarrow> 't \<Rightarrow> 't) \<Rightarrow> 'r list \<Rightarrow> 't \<Rightarrow> 't" where
  "executemany stmt rows t = foldl (\<lambda>acc r. stmt r acc) t rows"

definition load_default_data :: "database \<Rightarrow> database" where
  "load_default_data db =
     db\<lparr>users := insert_or_ignore_user
                  \<lparr>password = Some ''admin'', role = Some ''admin''\<rparr> (users db),
        competitions :=
          executemany (insert_or_ignore comp_name) default_competitions (competitions db),
        competitors :=
          executemany (insert_or_ignore ctor_id) default_competitors (competitors db),
        competition_competitors :=
          executemany (insert_or_ignore link_key) default_competition_competitors
            (competition_competitors db)\<rparr>"

text \<open>
  \<open>init_db\<close> drops the four tables of whatever store it finds, creates them empty,
  and seeds them.
\<close>

definition create_tables :: "database \<Rightarrow> database" where
  "create_tables old =
     \<lparr>users = [], competitions = [], competitors = [], competition_competitors = []\<rparr>"

definition init_db :: "seed_files \<Rightarrow> database \<Rightarrow> database" where
  "init_db fs old =
     (case load_initial_data fs (create_tables old) of
        (True, db) \<Rightarrow> db
      | (False, db) \<Rightarrow> load_default_data db)"

section \<open>Primary keys of a table\<close>

text \<open>
  A table respects its PRIMARY KEY when no two rows carry the same key; rows whose
  key is NULL are not compared.
\<close>

definition pk_ok :: "('r \<Rightarrow> 'k option) \<Rightarrow> 'r list \<Rightarrow> bool" where
  "pk_ok key t = distinct (filter (\<lambda>k. k \<noteq> None) (map key t))"

text \<open>The constraints the schema declares and SQLite enforces.\<close>

definition db_ok :: "database \<Rightarrow> bool" where
  "db_ok db =
     (pk_ok password (users db) \<and> None \<notin> set (map role (users db))
      \<and> pk_ok comp_name (competitions db)
      \<and> pk_ok ctor_id (competitors db)
      \<and> pk_ok link_key (competition_competitors db))"

section \<open>Sample data\<close>

text \<open>The dataset \<open>load_default_data\<close> leaves in an empty store.\<close>

definition seeded :: database where
  "seeded =
     \<lparr>users = [\<lparr>password = Some ''admin'', role = Some ''admin''\<rparr>],
      competitions = default_competitions,
      competitors = default_competitors,
      competition_competitors = default_competition_competitors\<rparr>"

definition no_seed_files :: seed_files where
  "no_seed_files =
     \<lparr>users_json = Missing, competitions_json = Missing, competitors_json = Missing\<rparr>"

text \<open>Only \<open>competitions.json\<close> is absent; \<open>users.json\<close> holds one user.\<close>

definition partial_seed_files :: seed_files where
  "partial_seed_files =
     \<lparr>users_json = Document (JObj [(''s3cret'', JObj [(''role'', JStr ''general'')])]),
      competitions_json = Missing,
      competitors_json = Document (JObj [])\<rparr>"

text \<open>Request bodies for \<open>POST /api/competitors/edit\<close>.\<close>

definition rename_001_to_099 :: json where
  "rename_001_to_099 =
     JObj [(''original_id'', JStr ''COMP-001''), (''new_id'', JStr ''COMP-099''),
           (''new_name'', JStr ''Alex Smith''), (''new_nationality'', JStr ''Canadian''),
           (''new_status'', JStr ''Active'')]"

definition rename_001_to_002 :: json where
  "rename_001_to_002 =
     JObj [(''original_id'', JStr ''COMP-001''), (''new_id'', JStr ''COMP-002''),
           (''new_name'', JStr ''Alex Smith''), (''new_nationality'', JStr ''Canadian''),
           (''new_status'', JStr ''Active'')]"

text \<open>
  A request body for \<open>POST /api/competitions/add_competitor\<close> that names neither a
  competition nor a competitor of the default dataset.
\<close>

definition link_unknown :: json where
  "link_unknown =
     JObj [(''competition_name'', JStr ''Autumn Masters''),
           (''competitor_id'', JStr ''COMP-404'')]"

text \<open>The default dataset after \<open>POST /api/competitions/remove\<close> of one competition.\<close>

definition winter_removed :: database where
  "winter_removed =
     snd (remove_competition (JObj [(''name'', JStr ''Winter Grand Prix'')]) seeded)"

text \<open>
  The default dataset after "Winter Grand Prix" has been linked to the id "COMP-099",
  which no competitor carries.
\<close>

definition winter_linked_099 :: database where
  "winter_linked_099 =
     snd (add_competitor_to_competition
            (JObj [(''competition_name'', JStr ''Winter Grand Prix''),
                   (''competitor_id'', JStr ''COMP-099'')]) seeded)"

text \<open>One body that carries the fields of every insert handler, with keys that exist.\<close>

definition existing_record :: json where
  "existing_record =
     JObj [(''password'', JStr ''admin''), (''role'', JStr ''general''),
           (''name'', JStr ''Winter Grand Prix''), (''date'', JStr ''June 1, 2026''),
           (''location'', JStr ''Oslo, Norway''), (''description'', JStr ''Again.''),
           (''id'', JStr ''COMP-001''), (''nationality'', JStr ''Irish''),
           (''status'', JStr ''Retired'')]"

section \<open>Basic facts\<close>

lemma and_then_Inr_iff: "and_then r f = Inr v \<longleftrightarrow> (\<exists>x. r = Inr x \<and> f x = Inr v)"
  by (cases r) (simp_all add: and_then_def)

lemma and_then_Inr [simp]: "and_then (Inr x) f = f x"
  by (simp add: and_then_def)

lemma and_then_Inl [simp]: "and_then (Inl e) f = Inl e"
  by (simp add: and_then_def)

lemma sql_eq_Some [simp]: "sql_eq x (Some a) \<longleftrightarrow> x = Some a"
  by (cases x) simp_all

lemma sql_eq_None [simp]: "\<not> sql_eq x None"
  by (cases x) simp_all

lemma sql_eq_iff: "sql_eq x y \<longleftrightarrow> x \<noteq> None \<and> x = y"
  by (cases x; cases y) simp_all

lemma delete_where_absent:
  "\<forall>r\<in>set t. \<not> sql_eq (col r) v \<Longrightarrow> delete_where col v t = t"
  by (simp add: delete_where_def)

lemma load_default_data_empty: "load_default_data (create_tables old) = seeded"
  by (simp add: load_default_data_def create_tables_def seeded_def executemany_def
      insert_or_ignore_user_def insert_or_ignore_def pk_conflict_def link_key_def
      default_competitions_def default_competitors_def default_competition_competitors_def)

lemmas sample_defs =
  seeded_def default_competitions_def default_competitors_def
  default_competition_competitors_def

section \<open>Seed loader\<close>

text \<open>
  C7. When one of \<open>users.json\<close>, \<open>competitions.json\<close>, \<open>competitors.json\<close> is
  missing, \<open>load_initial_data\<close> returns False and has put nothing into the store,
  whatever the documents that are present hold, and \<open>init_db\<close> ends with exactly the
  fixed default dataset: one admin user, three competitions, three competitors and
  four association rows.
\<close>

theorem missing_seed_file_loads_defaults:
  assumes "users_json fs = Missing \<or> competitions_json fs = Missing
           \<or> competitors_json fs = Missing"
  shows "load_initial_data fs db = (False, db)
       \<and> init_db fs old = seeded
       \<and> users seeded = [\<lparr>password = Some ''admin'', role = Some ''admin''\<rparr>]
       \<and> length (competitions seeded) = 3
       \<and> length (competitors seeded) = 3
       \<and> length (competition_competitors seeded) = 4"
  using assms
  by (auto simp add: load_initial_data_def init_db_def load_default_data_empty sample_defs)

theorem missing_seed_file_loads_defaults_witness:
  "competitions_json partial_seed_files = Missing
   \<and> load_initial_data partial_seed_files (create_tables seeded) = (False, create_tables seeded)
   \<and> init_db partial_seed_files seeded = seeded
   \<and> map password (users (init_db partial_seed_files seeded)) = [Some ''admin'']"
  using missing_seed_file_loads_defaults [of partial_seed_files "create_tables seeded" seeded]
  by (simp add: partial_seed_files_def)

text \<open>
  C8. With no seed file present, the store after \<open>init_db\<close> has exactly one row in
  \<open>users\<close>, password "admin" with role "admin", and \<open>GET /api/users\<close> answers with
  that single row.
\<close>

theorem no_seed_files_single_admin:
  "users (init_db no_seed_files old) = [\<lparr>password = Some ''admin'', role = Some ''admin''\<rparr>]
   \<and> get_users (init_db no_seed_files old)
       = (200, UserList [\<lparr>password = Some ''admin'', role = Some ''admin''\<rparr>])"
  by (simp add: init_db_def load_initial_data_def no_seed_files_def load_default_data_empty
      get_users_def seeded_def)

theorem no_seed_files_single_admin_witness:
  "get_users (init_db no_seed_files (create_tables seeded))
     = (200, UserList [\<lparr>password = Some ''admin'', role = Some ''admin''\<rparr>])
   \<and> length (users (init_db no_seed_files (create_tables seeded))) = 1"
  using no_seed_files_single_admin [of "create_tables seeded"] by simp

section \<open>Deleting\<close>

text \<open>
  C9. \<open>POST /api/competitions/remove\<close> and \<open>POST /api/competitors/remove\<close> leave the
  table \<open>competition_competitors\<close> exactly as it was, for every request body and every
  store: the association rows that name the deleted competition or competitor stay.
\<close>

theorem remove_keeps_association_rows:
  "competition_competitors (snd (remove_competition body db)) = competition_competitors db
   \<and> competition_competitors (snd (remove_competitor body db)) = competition_competitors db"
  by (auto simp add: remove_competition_def remove_competitor_def sql_delete_competitions_def
      sql_delete_competitors_def and_then_def split: sum.splits)

theorem remove_keeps_association_rows_witness:
  "Some ''Winter Grand Prix''
     \<notin> set (map comp_name (competitions
           (snd (remove_competition (JObj [(''name'', JStr ''Winter Grand Prix'')]) seeded))))
   \<and> competition_competitors
       (snd (remove_competition (JObj [(''name'', JStr ''Winter Grand Prix'')]) seeded))
     = default_competition_competitors
   \<and> Some ''COMP-001''
     \<notin> set (map ctor_id (competitors
           (snd (remove_competitor (JObj [(''id'', JStr ''COMP-001'')]) seeded))))
   \<and> competition_competitors
       (snd (remove_competitor (JObj [(''id'', JStr ''COMP-001'')]) seeded))
     = default_competition_competitors"
  using remove_keeps_association_rows
          [of "JObj [(''name'', JStr ''Winter Grand Prix'')]" seeded]
        remove_keeps_association_rows [of "JObj [(''id'', JStr ''COMP-001'')]" seeded]
  by (simp add: remove_competition_def remove_competitor_def sql_delete_competitions_def
      sql_delete_competitors_def delete_where_def sample_defs)

text \<open>
  C6. The three remove handlers answer \<open>success: true\<close> with HTTP 200 also when no row
  has the key of the request, and the store is then unchanged. The key is whatever the
  body carries in the field the handler reads (\<open>password\<close>, \<open>name\<close>, \<open>id\<close>), bound
  as a statement parameter; an absent field is NULL and matches no row.
\<close>

theorem remove_absent_key_is_noop:
  "(and_then (py_get body ''password'') bind_text = Inr v
      \<and> (\<forall>u\<in>set (users db). \<not> sql_eq (password u) v)
      \<longrightarrow> remove_user body db = ((200, Result True ''User removed successfully.''), db))
   \<and> (and_then (py_get body ''name'') bind_text = Inr v
      \<and> (\<forall>c\<in>set (competitions db). \<not> sql_eq (comp_name c) v)
      \<longrightarrow> remove_competition body db
            = ((200, Result True ''Competition removed successfully.''), db))
   \<and> (and_then (py_get body ''id'') bind_text = Inr v
      \<and> (\<forall>c\<in>set (competitors db). \<not> sql_eq (ctor_id c) v)
      \<longrightarrow> remove_competitor body db
            = ((200, Result True ''Competitor removed successfully.''), db))"
  by (auto simp add: and_then_Inr_iff remove_user_def remove_competition_def
      remove_competitor_def sql_delete_users_def sql_delete_competitions_def
      sql_delete_competitors_def delete_where_absent)

theorem remove_absent_key_is_noop_witness:
  "remove_user
       (JObj [(''password'', JStr ''nobody''), (''name'', JStr ''nobody''), (''id'', JStr ''nobody'')])
       seeded
     = ((200, Result True ''User removed successfully.''), seeded)
   \<and> remove_competition
       (JObj [(''password'', JStr ''nobody''), (''name'', JStr ''nobody''), (''id'', JStr ''nobody'')])
       seeded
     = ((200, Result True ''Competition removed successfully.''), seeded)
   \<and> remove_competitor
       (JObj [(''password'', JStr ''nobody''), (''name'', JStr ''nobody''), (''id'', JStr ''nobody'')])
       seeded
     = ((200, Result True ''Competitor removed successfully.''), seeded)"
  using remove_absent_key_is_noop
    [of "JObj [(''password'', JStr ''nobody''), (''name'', JStr ''nobody''), (''id'', JStr ''nobody'')]"
        "Some ''nobody''" seeded]
  by (simp add: sample_defs)

section \<open>Looking up\<close>

lemma find_sql_eq_None:
  "find (\<lambda>c. sql_eq (col c) (Some k)) t = None \<longleftrightarrow> Some k \<notin> set (map col t)"
  by (induction t) auto

lemma find_sql_eq_Some:
  "find (\<lambda>c. sql_eq (col c) (Some k)) t = Some r \<Longrightarrow> r \<in> set t \<and> col r = Some k"
  by (induction t) (auto split: if_splits)

lemma join_rows:
  "set [out c. cc \<leftarrow> ls, sql_eq (a cc) (Some n), c \<leftarrow> cs, sql_eq (b c) (d cc)]
   = {out c | c cc. c \<in> set cs \<and> cc \<in> set ls \<and> a cc = Some n \<and> sql_eq (b c) (d cc)}"
  by auto

lemma join_rows':
  "set [out c. cc \<leftarrow> ls, sql_eq (a cc) (Some n), c \<leftarrow> cs, sql_eq (b c) (d cc)]
   = {out c | c cc. c \<in> set cs \<and> cc \<in> set ls \<and> a cc = Some n \<and> d cc \<noteq> None \<and> b c = d cc}"
  unfolding join_rows by (simp only: sql_eq_iff) metis

lemma join_empty:
  "Some n \<notin> set (map a ls) \<Longrightarrow>
   [out c. cc \<leftarrow> ls, sql_eq (a cc) (Some n), c \<leftarrow> cs, sql_eq (b c) (d cc)] = []"
  by (induction ls) auto

lemma join_member:
  "cc \<in> set ls \<Longrightarrow> a cc = Some n \<Longrightarrow> c \<in> set cs \<Longrightarrow> sql_eq (b c) (d cc)
   \<Longrightarrow> out c \<in> set [out c. cc \<leftarrow> ls, sql_eq (a cc) (Some n), c \<leftarrow> cs, sql_eq (b c) (d cc)]"
  by auto

lemma set_competition_competitors_index [simp]:
  "set (competition_competitors_index t) = set t"
  by (simp add: competition_competitors_index_def)

text \<open>
  C5. \<open>GET /api/competitors/{id}/profile\<close> answers HTTP 404 with \<open>success: false\<close>
  when no row of \<open>competitors\<close> has the id. Otherwise it answers HTTP 200 with the
  fields of a competitor row with that id and, nested, the (name, date, location) of
  the competitions joined to the id through \<open>competition_competitors\<close>.
\<close>

theorem competitor_profile_or_404:
  "(Some cid \<notin> set (map ctor_id (competitors db))
      \<longrightarrow> get_competitor_profile cid db = (404, Result False ''Competitor not found.''))
   \<and> (Some cid \<in> set (map ctor_id (competitors db))
      \<longrightarrow> (\<exists>c rows. get_competitor_profile cid db = (200, Profile c rows)
            \<and> c \<in> set (competitors db) \<and> ctor_id c = Some cid
            \<and> set rows = {(comp_name x, comp_date x, comp_location x) | x cc.
                  x \<in> set (competitions db) \<and> cc \<in> set (competition_competitors db)
                  \<and> competitor_id cc = Some cid \<and> competition_name cc \<noteq> None
                  \<and> comp_name x = competition_name cc}))"
proof (intro conjI impI)
  assume "Some cid \<notin> set (map ctor_id (competitors db))"
  then have "find (\<lambda>c. sql_eq (ctor_id c) (Some cid)) (competitors db) = None"
    using find_sql_eq_None [of ctor_id cid "competitors db"] by blast
  then show "get_competitor_profile cid db = (404, Result False ''Competitor not found.'')"
    by (simp add: get_competitor_profile_def)
next
  let ?rows = "[(comp_name c, comp_date c, comp_location c).
                 cc \<leftarrow> competition_competitors db, sql_eq (competitor_id cc) (Some cid),
                 c \<leftarrow> competitions db, sql_eq (comp_name c) (competition_name cc)]"
  assume "Some cid \<in> set (map ctor_id (competitors db))"
  then have "find (\<lambda>c. sql_eq (ctor_id c) (Some cid)) (competitors db) \<noteq> None"
    using find_sql_eq_None [of ctor_id cid "competitors db"] by blast
  then obtain c where c: "find (\<lambda>c. sql_eq (ctor_id c) (Some cid)) (competitors db) = Some c"
    by blast
  have 1: "get_competitor_profile cid db = (200, Profile c ?rows)"
    using c by (simp add: get_competitor_profile_def)
  have 2: "c \<in> set (competitors db) \<and> ctor_id c = Some cid"
    using c by (rule find_sql_eq_Some)
  have 3: "set ?rows = {(comp_name x, comp_date x, comp_location x) | x cc.
                  x \<in> set (competitions db) \<and> cc \<in> set (competition_competitors db)
                  \<and> competitor_id cc = Some cid \<and> competition_name cc \<noteq> None
                  \<and> comp_name x = competition_name cc}"
    by (rule join_rows')
  from 1 2 3 show "\<exists>c rows. get_competitor_profile cid db = (200, Profile c rows)
            \<and> c \<in> set (competitors db) \<and> ctor_id c = Some cid
            \<and> set rows = {(comp_name x, comp_date x, comp_location x) | x cc.
                  x \<in> set (competitions db) \<and> cc \<in> set (competition_competitors db)
                  \<and> competitor_id cc = Some cid \<and> competition_name cc \<noteq> None
                  \<and> comp_name x = competition_name cc}"
    by blast
qed

theorem competitor_profile_or_404_witness:
  "get_competitor_profile ''COMP-404'' seeded = (404, Result False ''Competitor not found.'')
   \<and> (\<exists>rows. get_competitor_profile ''COMP-003'' seeded
         = (200, Profile \<lparr>ctor_id = Some ''COMP-003'', ctor_name = Some ''Kenji Tanaka'',
                          ctor_nationality = Some ''Japanese'', ctor_status = Some ''Active''\<rparr>
                  rows)
       \<and> set rows = {(Some ''Summer Open'', Some ''July 20, 2025'', Some ''Tokyo, Japan'')})"
  using competitor_profile_or_404 [of "''COMP-404''" seeded]
    competitor_profile_or_404 [of "''COMP-003''" seeded]
  by (auto simp add: sample_defs get_competitor_profile_def)

text \<open>
  C10, as amended. For every competition name \<open>GET /api/competitions/{name}/competitors\<close>
  answers HTTP 200 with the list of the (name, nationality) pairs of the competitors
  joined to that name through \<open>competition_competitors\<close>, never a 404 or an error
  object. The list is empty when no association row carries the name. The table
  \<open>competitions\<close> is not consulted: a name without a competition row still lists
  the competitors of the association rows that carry it.
\<close>

theorem competition_listing:
  "\<exists>rows. get_competition_competitors cname db = (200, NameNationalityList rows)
     \<and> set rows = {(ctor_name c, ctor_nationality c) | c cc.
           c \<in> set (competitors db) \<and> cc \<in> set (competition_competitors db)
           \<and> competition_name cc = Some cname \<and> competitor_id cc \<noteq> None
           \<and> ctor_id c = competitor_id cc}
     \<and> (Some cname \<notin> set (map competition_name (competition_competitors db))
          \<longrightarrow> rows = [])"
proof -
  let ?rows = "[(ctor_name c, ctor_nationality c).
           cc \<leftarrow> competition_competitors_index (competition_competitors db),
           sql_eq (competition_name cc) (Some cname),
           c \<leftarrow> competitors db, sql_eq (ctor_id c) (competitor_id cc)]"
  have 1: "get_competition_competitors cname db = (200, NameNationalityList ?rows)"
    by (simp add: get_competition_competitors_def)
  have "set ?rows = {(ctor_name c, ctor_nationality c) | c cc.
           c \<in> set (competitors db)
           \<and> cc \<in> set (competition_competitors_index (competition_competitors db))
           \<and> competition_name cc = Some cname \<and> competitor_id cc \<noteq> None
           \<and> ctor_id c = competitor_id cc}"
    by (rule join_rows')
  then have 2: "set ?rows = {(ctor_name c, ctor_nationality c) | c cc.
           c \<in> set (competitors db) \<and> cc \<in> set (competition_competitors db)
           \<and> competition_name cc = Some cname \<and> competitor_id cc \<noteq> None
           \<and> ctor_id c = competitor_id cc}"
    by (simp only: set_competition_competitors_index)
  have 3: "Some cname \<notin> set (map competition_name (competition_competitors db))
          \<longrightarrow> ?rows = []"
  proof
    assume "Some cname \<notin> set (map competition_name (competition_competitors db))"
    then have "Some cname \<notin> set (map competition_name
                 (competition_competitors_index (competition_competitors db)))"
      by simp
    then show "?rows = []" by (rule join_empty)
  qed
  from 1 2 3 show ?thesis by blast
qed

theorem competition_listing_witness:
  "get_competition_competitors ''Autumn Masters'' seeded = (200, NameNationalityList [])"
  using competition_listing [of "''Autumn Masters''" seeded]
  by (auto simp add: sample_defs)

text \<open>
  C10 as first stated fails: after "Winter Grand Prix" is removed from the default
  dataset no competition row has that name, and the listing for it still holds two
  competitors.
\<close>

theorem listing_of_removed_competition:
  "Some ''Winter Grand Prix'' \<notin> set (map comp_name (competitions winter_removed))
   \<and> get_competition_competitors ''Winter Grand Prix'' winter_removed
     = (200, NameNationalityList
          [(Some ''Alex Smith'', Some ''American''), (Some ''Maria Garcia'', Some ''Spanish'')])"
  by (simp add: winter_removed_def remove_competition_def sql_delete_competitions_def
      delete_where_def sample_defs get_competition_competitors_def
      competition_competitors_index_def)

section \<open>Inserting\<close>

lemma pk_conflict_member:
  "key r = Some k \<Longrightarrow> Some k \<in> set (map key t) \<Longrightarrow> pk_conflict key r t"
  by (simp add: pk_conflict_def)

text \<open>
  C2. \<open>POST /api/signup\<close>, \<open>/api/users/add\<close>, \<open>/api/competitions/add\<close> and
  \<open>/api/competitors/add\<close>: when the record of the request (a body that carries the
  fields the handler reads, with values that can be bound) has a primary key that a row
  of the table already has, the answer is HTTP 200 with \<open>success: false\<close> and the
  handler's message, and the whole store is unchanged.
\<close>

theorem duplicate_key_insert_rejected:
  "(and_then (py_get body ''password'') bind_text = Inr (Some p)
      \<and> Some p \<in> set (map password (users db))
      \<longrightarrow> signup body db = ((200, Result False ''User already exists.''), db))
   \<and> (and_then (py_get body ''password'') bind_text = Inr (Some p)
      \<and> and_then (py_get_default body ''role'' (JStr ''general'')) bind_text = Inr r
      \<and> Some p \<in> set (map password (users db))
      \<longrightarrow> add_user body db = ((200, Result False ''User already exists.''), db))
   \<and> (and_then (py_index body ''name'') bind_text = Inr (Some n)
      \<and> and_then (py_index body ''date'') bind_text = Inr d
      \<and> and_then (py_index body ''location'') bind_text = Inr l
      \<and> and_then (py_index body ''description'') bind_text = Inr ds
      \<and> Some n \<in> set (map comp_name (competitions db))
      \<longrightarrow> add_competition body db
            = ((200, Result False ''Competition with this name already exists.''), db))
   \<and> (and_then (py_index body ''id'') bind_text = Inr (Some i)
      \<and> and_then (py_index body ''name'') bind_text = Inr cn
      \<and> and_then (py_index body ''nationality'') bind_text = Inr nl
      \<and> and_then (py_index body ''status'') bind_text = Inr st
      \<and> Some i \<in> set (map ctor_id (competitors db))
      \<longrightarrow> add_competitor body db
            = ((200, Result False ''Competitor with this ID already exists.''), db))"
proof (intro conjI impI; elim conjE)
  assume bound: "and_then (py_get body ''password'') bind_text = Inr (Some p)"
    and mem: "Some p \<in> set (map password (users db))"
  from bound obtain j where j: "py_get body ''password'' = Inr j" "bind_text j = Inr (Some p)"
    unfolding and_then_Inr_iff by blast
  have "pk_conflict password \<lparr>password = Some p, role = Some ''general''\<rparr> (users db)"
    by (rule pk_conflict_member [OF _ mem]) simp
  with j show "signup body db = ((200, Result False ''User already exists.''), db)"
    by (simp add: signup_def sql_insert_users_def insert_user_row_def insert_row_def)
next
  assume bound: "and_then (py_get body ''password'') bind_text = Inr (Some p)"
    and rbound: "and_then (py_get_default body ''role'' (JStr ''general'')) bind_text = Inr r"
    and mem: "Some p \<in> set (map password (users db))"
  from bound rbound obtain j jr where j:
    "py_get body ''password'' = Inr j" "bind_text j = Inr (Some p)"
    "py_get_default body ''role'' (JStr ''general'') = Inr jr" "bind_text jr = Inr r"
    unfolding and_then_Inr_iff by blast
  have "pk_conflict password \<lparr>password = Some p, role = r\<rparr> (users db)"
    by (rule pk_conflict_member [OF _ mem]) simp
  with j show "add_user body db = ((200, Result False ''User already exists.''), db)"
    by (simp add: add_user_def sql_insert_users_def insert_user_row_def insert_row_def)
next
  assume bound:
    "and_then (py_index body ''name'') bind_text = Inr (Some n)"
    "and_then (py_index body ''date'') bind_text = Inr d"
    "and_then (py_index body ''location'') bind_text = Inr l"
    "and_then (py_index body ''description'') bind_text = Inr ds"
    and mem: "Some n \<in> set (map comp_name (competitions db))"
  from bound obtain jn jd jl jds where j:
    "py_index body ''name'' = Inr jn" "bind_text jn = Inr (Some n)"
    "py_index body ''date'' = Inr jd" "bind_text jd = Inr d"
    "py_index body ''location'' = Inr jl" "bind_text jl = Inr l"
    "py_index body ''description'' = Inr jds" "bind_text jds = Inr ds"
    unfolding and_then_Inr_iff by blast
  have "pk_conflict comp_name
          \<lparr>comp_name = Some n, comp_date = d, comp_location = l, comp_description = ds,
           comp_status = Some ''Upcoming''\<rparr> (competitions db)"
    by (rule pk_conflict_member [OF _ mem]) simp
  with j show "add_competition body db
            = ((200, Result False ''Competition with this name already exists.''), db)"
    by (simp add: add_competition_def sql_insert_competitions_def insert_row_def)
next
  assume bound:
    "and_then (py_index body ''id'') bind_text = Inr (Some i)"
    "and_then (py_index body ''name'') bind_text = Inr cn"
    "and_then (py_index body ''nationality'') bind_text = Inr nl"
    "and_then (py_index body ''status'') bind_text = Inr st"
    and mem: "Some i \<in> set (map ctor_id (competitors db))"
  from bound obtain ji jn jl js where j:
    "py_index body ''id'' = Inr ji" "bind_text ji = Inr (Some i)"
    "py_index body ''name'' = Inr jn" "bind_text jn = Inr cn"
    "py_index body ''nationality'' = Inr jl" "bind_text jl = Inr nl"
    "py_index body ''status'' = Inr js" "bind_text js = Inr st"
    unfolding and_then_Inr_iff by blast
  have "pk_conflict ctor_id
          \<lparr>ctor_id = Some i, ctor_name = cn, ctor_nationality = nl, ctor_status = st\<rparr>
          (competitors db)"
    by (rule pk_conflict_member [OF _ mem]) simp
  with j show "add_competitor body db
            = ((200, Result False ''Competitor with this ID already exists.''), db)"
    by (simp add: add_competitor_def sql_insert_competitors_def insert_row_def)
qed

theorem duplicate_key_insert_rejected_witness:
  "signup existing_record seeded = ((200, Result False ''User already exists.''), seeded)
   \<and> add_user existing_record seeded = ((200, Result False ''User already exists.''), seeded)
   \<and> add_competition existing_record seeded
     = ((200, Result False ''Competition with this name already exists.''), seeded)
   \<and> add_competitor existing_record seeded
     = ((200, Result False ''Competitor with this ID already exists.''), seeded)"
  using duplicate_key_insert_rejected
      [where body = existing_record and db = seeded and p = "''admin''"
         and r = "Some ''general''" and n = "''Winter Grand Prix''"
         and d = "Some ''June 1, 2026''" and l = "Some ''Oslo, Norway''"
         and ds = "Some ''Again.''" and i = "''COMP-001''"
         and cn = "Some ''Winter Grand Prix''" and nl = "Some ''Irish''"
         and st = "Some ''Retired''"]
  by (simp add: existing_record_def sample_defs)

text \<open>
  C4. \<open>POST /api/competitions/add\<close> with a body that carries name, date, location
  and description, the name being new: the row appended to \<open>competitions\<close> has these
  four values and the status "Upcoming", whatever else the body holds (a \<open>status\<close>
  field is not read).
\<close>

theorem add_competition_status_upcoming:
  assumes "and_then (py_index data ''name'') bind_text = Inr n"
      and "and_then (py_index data ''date'') bind_text = Inr d"
      and "and_then (py_index data ''location'') bind_text = Inr l"
      and "and_then (py_index data ''description'') bind_text = Inr ds"
      and "n \<notin> set (map comp_name (competitions db))"
  shows "add_competition data db
         = ((200, Result True ''Competition added successfully.''),
            db\<lparr>competitions := competitions db
                 @ [\<lparr>comp_name = n, comp_date = d, comp_location = l, comp_description = ds,
                     comp_status = Some ''Upcoming''\<rparr>]\<rparr>)"
proof -
  from assms(1-4) obtain jn jd jl jds where
    "py_index data ''name'' = Inr jn" "bind_text jn = Inr n"
    "py_index data ''date'' = Inr jd" "bind_text jd = Inr d"
    "py_index data ''location'' = Inr jl" "bind_text jl = Inr l"
    "py_index data ''description'' = Inr jds" "bind_text jds = Inr ds"
    unfolding and_then_Inr_iff by blast
  moreover have "\<not> pk_conflict comp_name
       \<lparr>comp_name = n, comp_date = d, comp_location = l, comp_description = ds,
        comp_status = Some ''Upcoming''\<rparr> (competitions db)"
    using assms(5) by (simp add: pk_conflict_def)
  ultimately show ?thesis
    by (simp add: add_competition_def sql_insert_competitions_def insert_row_def)
qed

theorem add_competition_status_upcoming_witness:
  "add_competition
       (JObj [(''name'', JStr ''Autumn Masters''), (''date'', JStr ''October 3, 2025''),
              (''location'', JStr ''Rome, Italy''), (''description'', JStr ''New.''),
              (''status'', JStr ''Completed'')])
       seeded
     = ((200, Result True ''Competition added successfully.''),
        seeded\<lparr>competitions := default_competitions
           @ [\<lparr>comp_name = Some ''Autumn Masters'', comp_date = Some ''October 3, 2025'',
               comp_location = Some ''Rome, Italy'', comp_description = Some ''New.'',
               comp_status = Some ''Upcoming''\<rparr>]\<rparr>)"
  using add_competition_status_upcoming
      [of "JObj [(''name'', JStr ''Autumn Masters''), (''date'', JStr ''October 3, 2025''),
              (''location'', JStr ''Rome, Italy''), (''description'', JStr ''New.''),
              (''status'', JStr ''Completed'')]"
          "Some ''Autumn Masters''" "Some ''October 3, 2025''" "Some ''Rome, Italy''"
          "Some ''New.''" seeded]
  by (simp add: sample_defs)

lemma truthy_bind_not_null: "truthy j \<Longrightarrow> bind_text j = Inr v \<Longrightarrow> v \<noteq> None"
  by (cases j) (auto split: if_splits)

lemma link_key_Some_iff:
  "link_key cc = Some (a, b) \<longleftrightarrow> competition_name cc = Some a \<and> competitor_id cc = Some b"
  by (auto simp add: link_key_def split: option.splits)

lemma link_conflict_iff:
  "pk_conflict link_key \<lparr>competition_name = Some a, competitor_id = Some b\<rparr> t
   \<longleftrightarrow> \<lparr>competition_name = Some a, competitor_id = Some b\<rparr> \<in> set t"
proof -
  have "link_key \<lparr>competition_name = Some a, competitor_id = Some b\<rparr> = Some (a, b)"
    by (simp add: link_key_def)
  moreover have "Some (a, b) \<in> set (map link_key t)
      \<longleftrightarrow> \<lparr>competition_name = Some a, competitor_id = Some b\<rparr> \<in> set t"
  proof
    assume "Some (a, b) \<in> set (map link_key t)"
    then obtain cc where cc: "cc \<in> set t" "link_key cc = Some (a, b)"
      by auto
    then have "cc = \<lparr>competition_name = Some a, competitor_id = Some b\<rparr>"
      by (simp add: link_key_Some_iff)
    with cc show "\<lparr>competition_name = Some a, competitor_id = Some b\<rparr> \<in> set t"
      by simp
  next
    assume "\<lparr>competition_name = Some a, competitor_id = Some b\<rparr> \<in> set t"
    then have "link_key \<lparr>competition_name = Some a, competitor_id = Some b\<rparr> \<in> link_key ` set t"
      by (rule imageI)
    then show "Some (a, b) \<in> set (map link_key t)"
      by (simp add: link_key_def)
  qed
  ultimately show ?thesis by (simp add: pk_conflict_def)
qed

text \<open>
  C3, as amended. \<open>POST /api/competitions/add_competitor\<close> answers \<open>success: false\<close>
  when \<open>competition_name\<close> or \<open>competitor_id\<close> is absent from the body or empty
  (falsy), and when the association of the two texts already exists. Otherwise, for
  two texts, it appends the association row and answers \<open>success: true\<close>; whether
  a competition or a competitor row with these keys exists plays no part.
\<close>

theorem add_competitor_to_competition_cases:
  assumes "py_get data ''competition_name'' = Inr cn"
      and "py_get data ''competitor_id'' = Inr ci"
  shows "(\<not> truthy cn \<or> \<not> truthy ci \<longrightarrow>
           add_competitor_to_competition data db
           = ((200, Result False ''Competition name and competitor ID are required.''), db))
       \<and> (truthy cn \<and> truthy ci \<and> bind_text cn = Inr (Some a) \<and> bind_text ci = Inr (Some b) \<longrightarrow>
           add_competitor_to_competition data db
           = (if \<lparr>competition_name = Some a, competitor_id = Some b\<rparr>
                   \<in> set (competition_competitors db)
              then ((200, Result False ''Competitor is already assigned to this competition.''),
                    db)
              else ((200, Result True ''Competitor assigned successfully.''),
                    db\<lparr>competition_competitors := competition_competitors db
                         @ [\<lparr>competition_name = Some a, competitor_id = Some b\<rparr>]\<rparr>)))"
  using assms
  by (auto simp add: add_competitor_to_competition_def sql_insert_competition_competitors_def
      insert_row_def link_conflict_iff)

theorem add_competitor_to_competition_cases_witness:
  "add_competitor_to_competition
       (JObj [(''competition_name'', JStr ''Summer Open''), (''competitor_id'', JStr [])]) seeded
     = ((200, Result False ''Competition name and competitor ID are required.''), seeded)
   \<and> add_competitor_to_competition
       (JObj [(''competition_name'', JStr ''Summer Open''), (''competitor_id'', JStr ''COMP-003'')])
       seeded
     = ((200, Result False ''Competitor is already assigned to this competition.''), seeded)
   \<and> add_competitor_to_competition
       (JObj [(''competition_name'', JStr ''Summer Open''), (''competitor_id'', JStr ''COMP-002'')])
       seeded
     = ((200, Result True ''Competitor assigned successfully.''),
        seeded\<lparr>competition_competitors := default_competition_competitors
           @ [\<lparr>competition_name = Some ''Summer Open'', competitor_id = Some ''COMP-002''\<rparr>]\<rparr>)"
  using add_competitor_to_competition_cases
      [of "JObj [(''competition_name'', JStr ''Summer Open''), (''competitor_id'', JStr [])]"
          "JStr ''Summer Open''" "JStr []" seeded "''Summer Open''" "[]"]
    add_competitor_to_competition_cases
      [of "JObj [(''competition_name'', JStr ''Summer Open''), (''competitor_id'', JStr ''COMP-003'')]"
          "JStr ''Summer Open''" "JStr ''COMP-003''" seeded "''Summer Open''" "''COMP-003''"]
    add_competitor_to_competition_cases
      [of "JObj [(''competition_name'', JStr ''Summer Open''), (''competitor_id'', JStr ''COMP-002'')]"
          "JStr ''Summer Open''" "JStr ''COMP-002''" seeded "''Summer Open''" "''COMP-002''"]
  by (simp add: sample_defs)

text \<open>
  C3 as first stated fails: neither "Autumn Masters" nor "COMP-404" is a key of the
  default dataset, and the association of the two is inserted with \<open>success: true\<close>.
\<close>

theorem add_competitor_to_competition_unknown_ids:
  "Some ''Autumn Masters'' \<notin> set (map comp_name (competitions seeded))
   \<and> Some ''COMP-404'' \<notin> set (map ctor_id (competitors seeded))
   \<and> add_competitor_to_competition link_unknown seeded
     = ((200, Result True ''Competitor assigned successfully.''),
        seeded\<lparr>competition_competitors := default_competition_competitors
           @ [\<lparr>competition_name = Some ''Autumn Masters'', competitor_id = Some ''COMP-404''\<rparr>]\<rparr>)"
  by (simp add: link_unknown_def sample_defs add_competitor_to_competition_def
      sql_insert_competition_competitors_def insert_row_def pk_conflict_def link_key_def)

section \<open>The constraints of the store are kept\<close>

lemma pk_ok_insert_mid:
  "pk_ok key (xs @ y # ys)
   \<longleftrightarrow> pk_ok key (xs @ ys) \<and> (key y = None \<or> (key y \<notin> key ` set xs \<and> key y \<notin> key ` set ys))"
  by (auto simp add: pk_ok_def)

lemma pk_ok_snoc:
  "pk_ok key (t @ [r]) \<longleftrightarrow> pk_ok key t \<and> \<not> pk_conflict key r t"
  using pk_ok_insert_mid [of key t r "[]"] by (auto simp add: pk_conflict_def)

lemma pk_ok_Nil [simp]: "pk_ok key []"
  by (simp add: pk_ok_def)

lemma pk_ok_insert_row:
  "insert_row key r t = Inr t' \<Longrightarrow> pk_ok key t \<Longrightarrow> pk_ok key t'"
  by (auto simp add: insert_row_def pk_ok_snoc split: if_splits)

lemma pk_ok_insert_or_ignore:
  "pk_ok key t \<Longrightarrow> pk_ok key (insert_or_ignore key r t)"
  by (simp add: insert_or_ignore_def pk_ok_snoc)

lemma pk_ok_filter: "pk_ok key t \<Longrightarrow> pk_ok key (filter Q t)"
proof (induction t)
  case Nil
  then show ?case by simp
next
  case (Cons r t)
  from Cons.prems have "pk_ok key t" and "key r = None \<or> key r \<notin> key ` set t"
    using pk_ok_insert_mid [of key "[]" r t] by simp_all
  then have "pk_ok key (filter Q t)" and "key r = None \<or> key r \<notin> key ` set (filter Q t)"
    using Cons.IH by auto
  then show ?case
    using pk_ok_insert_mid [of key "[]" r "filter Q t"] by simp
qed

lemma pk_ok_delete_where: "pk_ok key t \<Longrightarrow> pk_ok key (delete_where col v t)"
  by (simp add: delete_where_def pk_ok_filter)

lemma pk_ok_update_where:
  "update_where key hit f seen rs = Inr t' \<Longrightarrow> pk_ok key (seen @ rs) \<Longrightarrow> pk_ok key t'"
proof (induction rs arbitrary: seen)
  case Nil
  then show ?case by simp
next
  case (Cons r rs)
  from Cons.prems(2) have rest: "pk_ok key (seen @ rs)"
    using pk_ok_insert_mid [of key seen r rs] by simp
  show ?case
  proof (cases "hit r")
    case False
    with Cons.prems(1) have "update_where key hit f (seen @ [r]) rs = Inr t'" by simp
    moreover from Cons.prems(2) have "pk_ok key ((seen @ [r]) @ rs)" by simp
    ultimately show ?thesis by (rule Cons.IH)
  next
    case True
    with Cons.prems(1) have nc: "\<not> pk_conflict key (f r) (seen @ rs)"
      and run: "update_where key hit f (seen @ [f r]) rs = Inr t'"
      by (simp_all split: if_splits)
    from nc have "key (f r) = None \<or> (key (f r) \<notin> key ` set seen \<and> key (f r) \<notin> key ` set rs)"
      by (auto simp add: pk_conflict_def)
    with rest have "pk_ok key (seen @ f r # rs)"
      using pk_ok_insert_mid [of key seen "f r" rs] by simp
    then have "pk_ok key ((seen @ [f r]) @ rs)" by simp
    with run show ?thesis by (rule Cons.IH)
  qed
qed


lemma insert_user_row_ok:
  "insert_user_row r t = Inr t' \<Longrightarrow> pk_ok password t \<Longrightarrow> None \<notin> set (map role t)
   \<Longrightarrow> pk_ok password t' \<and> None \<notin> set (map role t')"
  by (auto simp add: insert_user_row_def insert_row_def pk_ok_snoc split: if_splits)

lemma insert_or_ignore_user_ok:
  "pk_ok password t \<Longrightarrow> None \<notin> set (map role t)
   \<Longrightarrow> pk_ok password (insert_or_ignore_user r t)
     \<and> None \<notin> set (map role (insert_or_ignore_user r t))"
  by (auto simp add: insert_or_ignore_user_def insert_or_ignore_def pk_ok_snoc)

lemma role_delete_where:
  "None \<notin> role ` set t \<Longrightarrow> None \<notin> role ` set (delete_where col v t)"
  by (auto simp add: delete_where_def)

lemma sql_insert_users_ok:
  "sql_insert_users pw rl db = Inr db' \<Longrightarrow> db_ok db \<Longrightarrow> db_ok db'"
  by (auto simp add: sql_insert_users_def and_then_Inr_iff db_ok_def dest: insert_user_row_ok)

lemma sql_delete_users_ok:
  assumes "sql_delete_users pw db = Inr db'" and "db_ok db"
  shows "db_ok db'"
proof -
  from assms(1) obtain p where "db' = db\<lparr>users := delete_where password p (users db)\<rparr>"
    by (auto simp add: sql_delete_users_def and_then_Inr_iff)
  with assms(2) show ?thesis
    by (simp add: db_ok_def pk_ok_delete_where role_delete_where)
qed

lemma sql_insert_competitions_ok:
  "sql_insert_competitions n d l ds s db = Inr db' \<Longrightarrow> db_ok db \<Longrightarrow> db_ok db'"
  by (auto simp add: sql_insert_competitions_def and_then_Inr_iff db_ok_def
      dest: pk_ok_insert_row)

lemma sql_delete_competitions_ok:
  "sql_delete_competitions n db = Inr db' \<Longrightarrow> db_ok db \<Longrightarrow> db_ok db'"
  by (auto simp add: sql_delete_competitions_def and_then_Inr_iff db_ok_def pk_ok_delete_where)

lemma sql_update_competitions_ok:
  "sql_update_competitions n d l ds s orig db = Inr db' \<Longrightarrow> db_ok db \<Longrightarrow> db_ok db'"
  by (auto simp add: sql_update_competitions_def and_then_Inr_iff db_ok_def
      dest: pk_ok_update_where)

lemma sql_insert_competitors_ok:
  "sql_insert_competitors i n nl s db = Inr db' \<Longrightarrow> db_ok db \<Longrightarrow> db_ok db'"
  by (auto simp add: sql_insert_competitors_def and_then_Inr_iff db_ok_def
      dest: pk_ok_insert_row)

lemma sql_delete_competitors_ok:
  "sql_delete_competitors i db = Inr db' \<Longrightarrow> db_ok db \<Longrightarrow> db_ok db'"
  by (auto simp add: sql_delete_competitors_def and_then_Inr_iff db_ok_def pk_ok_delete_where)

lemma sql_update_competitors_ok:
  "sql_update_competitors n i nl s orig db = Inr db' \<Longrightarrow> db_ok db \<Longrightarrow> db_ok db'"
  by (auto simp add: sql_update_competitors_def and_then_Inr_iff db_ok_def
      dest: pk_ok_update_where)

lemma sql_insert_competition_competitors_ok:
  "sql_insert_competition_competitors cn ci db = Inr db' \<Longrightarrow> db_ok db \<Longrightarrow> db_ok db'"
  by (auto simp add: sql_insert_competition_competitors_def and_then_Inr_iff db_ok_def
      dest: pk_ok_insert_row)

lemma sql_update_competition_competitors_ok:
  "sql_update_competition_competitors i orig db = Inr db' \<Longrightarrow> db_ok db \<Longrightarrow> db_ok db'"
  by (auto simp add: sql_update_competition_competitors_def and_then_Inr_iff db_ok_def
      dest: pk_ok_update_where)


lemma signup_ok: "db_ok db \<Longrightarrow> db_ok (snd (signup body db))"
  by (auto simp add: signup_def dest: sql_insert_users_ok split: sum.splits)

lemma add_user_ok: "db_ok db \<Longrightarrow> db_ok (snd (add_user body db))"
  by (auto simp add: add_user_def dest: sql_insert_users_ok split: sum.splits)

lemma remove_user_ok: "db_ok db \<Longrightarrow> db_ok (snd (remove_user body db))"
  by (auto simp add: remove_user_def and_then_Inr_iff dest: sql_delete_users_ok
      split: sum.splits)

lemma add_competition_ok: "db_ok db \<Longrightarrow> db_ok (snd (add_competition data db))"
  by (auto simp add: add_competition_def and_then_Inr_iff dest: sql_insert_competitions_ok
      split: sum.splits)

lemma remove_competition_ok: "db_ok db \<Longrightarrow> db_ok (snd (remove_competition body db))"
  by (auto simp add: remove_competition_def and_then_Inr_iff dest: sql_delete_competitions_ok
      split: sum.splits)

lemma edit_competition_ok: "db_ok db \<Longrightarrow> db_ok (snd (edit_competition data db))"
  by (auto simp add: edit_competition_def and_then_Inr_iff dest: sql_update_competitions_ok
      split: sum.splits)

lemma add_competitor_to_competition_ok:
  "db_ok db \<Longrightarrow> db_ok (snd (add_competitor_to_competition data db))"
  by (auto simp add: add_competitor_to_competition_def
      dest: sql_insert_competition_competitors_ok split: sum.splits)

lemma add_competitor_ok: "db_ok db \<Longrightarrow> db_ok (snd (add_competitor data db))"
  by (auto simp add: add_competitor_def and_then_Inr_iff dest: sql_insert_competitors_ok
      split: sum.splits)

lemma remove_competitor_ok: "db_ok db \<Longrightarrow> db_ok (snd (remove_competitor body db))"
  by (auto simp add: remove_competitor_def and_then_Inr_iff dest: sql_delete_competitors_ok
      split: sum.splits)

lemma edit_competitor_ok: "db_ok db \<Longrightarrow> db_ok (snd (edit_competitor data db))"
  by (auto simp add: edit_competitor_def and_then_Inr_iff
      dest: sql_update_competitors_ok sql_update_competition_competitors_ok
      split: sum.splits)


lemma sql_insert_or_ignore_users_ok:
  assumes "sql_insert_or_ignore_users pw rl db = Inr db'" and "db_ok db"
  shows "db_ok db'"
proof -
  from assms(1) obtain r where
    "db' = db\<lparr>users := insert_or_ignore_user r (users db)\<rparr>"
    by (auto simp add: sql_insert_or_ignore_users_def and_then_Inr_iff)
  with assms(2) show ?thesis
    using insert_or_ignore_user_ok [of "users db" r] by (simp add: db_ok_def)
qed

lemma sql_insert_or_ignore_competitions_ok:
  "sql_insert_or_ignore_competitions n d l ds s db = Inr db' \<Longrightarrow> db_ok db \<Longrightarrow> db_ok db'"
  by (auto simp add: sql_insert_or_ignore_competitions_def and_then_Inr_iff db_ok_def
      pk_ok_insert_or_ignore)

lemma sql_insert_or_ignore_competitors_ok:
  "sql_insert_or_ignore_competitors i n nl s db = Inr db' \<Longrightarrow> db_ok db \<Longrightarrow> db_ok db'"
  by (auto simp add: sql_insert_or_ignore_competitors_def and_then_Inr_iff db_ok_def
      pk_ok_insert_or_ignore)

lemma sql_insert_or_ignore_competition_competitors_ok:
  "sql_insert_or_ignore_competition_competitors cn ci db = Inr db' \<Longrightarrow> db_ok db
   \<Longrightarrow> db_ok db'"
  by (auto simp add: sql_insert_or_ignore_competition_competitors_def and_then_Inr_iff
      db_ok_def pk_ok_insert_or_ignore)

lemma load_users_ok: "load_users us db = Inr db' \<Longrightarrow> db_ok db \<Longrightarrow> db_ok db'"
proof (induction us arbitrary: db)
  case Nil
  then show ?case by simp
next
  case (Cons u us)
  obtain pw details where u: "u = (pw, details)" by (cases u)
  with Cons.prems(1) obtain db1 rl where
    "sql_insert_or_ignore_users (JStr pw) rl db = Inr db1" "load_users us db1 = Inr db'"
    by (auto simp add: and_then_Inr_iff)
  with Cons.prems(2) show ?case
    using Cons.IH sql_insert_or_ignore_users_ok by blast
qed

lemma load_competitor_ids_ok:
  "load_competitor_ids n xs db = Inr db' \<Longrightarrow> db_ok db \<Longrightarrow> db_ok db'"
proof (induction xs arbitrary: db)
  case Nil
  then show ?case by simp
next
  case (Cons x xs)
  from Cons.prems(1) obtain db1 where
    "sql_insert_or_ignore_competition_competitors n x db = Inr db1"
    "load_competitor_ids n xs db1 = Inr db'"
    by (auto simp add: and_then_Inr_iff)
  with Cons.prems(2) show ?case
    using Cons.IH sql_insert_or_ignore_competition_competitors_ok by blast
qed

lemma load_competitions_ok:
  "load_competitions cs db = Inr db' \<Longrightarrow> db_ok db \<Longrightarrow> db_ok db'"
proof (induction cs arbitrary: db)
  case Nil
  then show ?case by simp
next
  case (Cons c cs)
  obtain name details where c: "c = (name, details)" by (cases c)
  with Cons.prems(1) obtain n d l ds s db1 db2 where steps:
    "sql_insert_or_ignore_competitions n d l ds s db = Inr db1"
    "(if has_key details ''competitor_ids''
      then and_then (py_index details ''competitor_ids'') (\<lambda>ids.
           and_then (py_iter ids) (\<lambda>xs. load_competitor_ids n xs db1))
      else Inr db1) = Inr db2"
    "load_competitions cs db2 = Inr db'"
    by (auto simp add: and_then_Inr_iff)
  from steps(1) Cons.prems(2) have "db_ok db1"
    by (rule sql_insert_or_ignore_competitions_ok)
  with steps(2) have "db_ok db2"
    by (auto simp add: and_then_Inr_iff dest: load_competitor_ids_ok split: if_splits)
  with steps(3) show ?case by (rule Cons.IH)
qed

lemma load_competitors_ok:
  "load_competitors ps db = Inr db' \<Longrightarrow> db_ok db \<Longrightarrow> db_ok db'"
proof (induction ps arbitrary: db)
  case Nil
  then show ?case by simp
next
  case (Cons p ps)
  obtain comp_id details where p: "p = (comp_id, details)" by (cases p)
  with Cons.prems(1) obtain i n nl s db1 where
    "sql_insert_or_ignore_competitors i n nl s db = Inr db1" "load_competitors ps db1 = Inr db'"
    by (auto simp add: and_then_Inr_iff)
  with Cons.prems(2) show ?case
    using Cons.IH sql_insert_or_ignore_competitors_ok by blast
qed

lemma load_initial_data_ok: "db_ok db \<Longrightarrow> db_ok (snd (load_initial_data fs db))"
  by (auto simp add: load_initial_data_def and_then_Inr_iff
      dest!: load_users_ok load_competitions_ok load_competitors_ok split: sum.splits)

lemma pk_ok_executemany:
  "pk_ok key t \<Longrightarrow> pk_ok key (executemany (insert_or_ignore key) rows t)"
  unfolding executemany_def
  by (induction rows arbitrary: t) (simp_all add: pk_ok_insert_or_ignore)

lemma load_default_data_ok: "db_ok db \<Longrightarrow> db_ok (load_default_data db)"
  using insert_or_ignore_user_ok [of "users db" "\<lparr>password = Some ''admin'', role = Some ''admin''\<rparr>"]
  by (simp add: load_default_data_def db_ok_def pk_ok_executemany)

lemma create_tables_ok: "db_ok (create_tables old)"
  by (simp add: create_tables_def db_ok_def)

lemma init_db_ok: "db_ok (init_db fs old)"
proof -
  obtain b db where r: "load_initial_data fs (create_tables old) = (b, db)"
    by (cases "load_initial_data fs (create_tables old)")
  then have "db_ok db"
    using load_initial_data_ok [OF create_tables_ok, of fs old] by simp
  with r show ?thesis
    by (cases b) (simp_all add: init_db_def load_default_data_ok)
qed

text \<open>
  X1. The store \<open>init_db\<close> builds has unique primary keys in its four tables and
  no user without a role, and every handler that writes keeps this so, whatever the
  request body.
\<close>

theorem store_constraints_kept:
  "db_ok (init_db fs old)
   \<and> (db_ok db \<longrightarrow>
        db_ok (snd (signup body db)) \<and> db_ok (snd (add_user body db))
        \<and> db_ok (snd (remove_user body db))
        \<and> db_ok (snd (add_competition body db)) \<and> db_ok (snd (remove_competition body db))
        \<and> db_ok (snd (edit_competition body db))
        \<and> db_ok (snd (add_competitor_to_competition body db))
        \<and> db_ok (snd (add_competitor body db)) \<and> db_ok (snd (remove_competitor body db))
        \<and> db_ok (snd (edit_competitor body db)))"
  by (simp add: init_db_ok signup_ok add_user_ok remove_user_ok add_competition_ok
      remove_competition_ok edit_competition_ok add_competitor_to_competition_ok
      add_competitor_ok remove_competitor_ok edit_competitor_ok)

theorem store_constraints_kept_witness:
  "db_ok seeded \<and> db_ok (snd (edit_competitor rename_001_to_099 seeded))
   \<and> db_ok (snd (add_competitor_to_competition link_unknown seeded))"
proof -
  have ok: "db_ok seeded"
    by (simp add: db_ok_def pk_ok_def sample_defs link_key_def)
  from store_constraints_kept [of no_seed_files seeded seeded rename_001_to_099] ok
  have 1: "db_ok (snd (edit_competitor rename_001_to_099 seeded))"
    by blast
  from store_constraints_kept [of no_seed_files seeded seeded link_unknown] ok
  have 2: "db_ok (snd (add_competitor_to_competition link_unknown seeded))"
    by blast
  from ok 1 2 show ?thesis by (intro conjI)
qed

section \<open>Editing a competitor\<close>

lemma pk_ok_mid:
  "pk_ok key (xs @ y # ys) \<Longrightarrow> key y \<noteq> None
   \<Longrightarrow> key y \<notin> key ` set xs \<and> key y \<notin> key ` set ys"
  by (auto simp add: pk_ok_def)

lemma update_where_ok:
  assumes P: "\<And>r x. hit r \<Longrightarrow> hit x \<Longrightarrow> key x = key (f r) \<Longrightarrow> key (f x) = key x"
  shows "pk_ok key (seen @ map (\<lambda>r. if hit r then f r else r) rs)
         \<Longrightarrow> update_where key hit f seen rs
             = Inr (seen @ map (\<lambda>r. if hit r then f r else r) rs)"
proof (induction rs arbitrary: seen)
  case Nil
  then show ?case by simp
next
  case (Cons r rs)
  define g where "g = (\<lambda>r. if hit r then f r else r)"
  have IH: "\<And>seen. pk_ok key (seen @ map g rs)
              \<Longrightarrow> update_where key hit f seen rs = Inr (seen @ map g rs)"
    unfolding g_def by (rule Cons.IH)
  have prem: "pk_ok key (seen @ g r # map g rs)"
    using Cons.prems unfolding g_def by simp
  have goal_eq: "seen @ map g (r # rs) = (seen @ [g r]) @ map g rs"
    by simp
  from prem have step: "update_where key hit f (seen @ [g r]) rs = Inr ((seen @ [g r]) @ map g rs)"
    by (intro IH) simp
  have "update_where key hit f seen (r # rs) = Inr (seen @ map g (r # rs))"
  proof (cases "hit r")
    case False
    then have "g r = r" by (simp add: g_def)
    with step False show ?thesis by simp
  next
    case True
    then have gr: "g r = f r" by (simp add: g_def)
    have "\<not> pk_conflict key (f r) (seen @ rs)"
    proof
      assume c: "pk_conflict key (f r) (seen @ rs)"
      then have nn: "key (f r) \<noteq> None"
        by (simp add: pk_conflict_def)
      from c have mem: "key (f r) \<in> key ` set seen \<or> key (f r) \<in> key ` set rs"
        by (simp add: pk_conflict_def image_Un)
      from prem nn gr have fresh1: "key (f r) \<notin> key ` set seen"
        and fresh2: "key (f r) \<notin> key ` set (map g rs)"
        using pk_ok_mid [of key seen "f r" "map g rs"] by simp_all
      from mem fresh1 have "key (f r) \<in> key ` set rs" by blast
      then obtain x where x: "x \<in> set rs" "key x = key (f r)"
        by (metis imageE)
      have "key (g x) = key x"
      proof (cases "hit x")
        case hx: True
        then show ?thesis using P [OF True hx x(2)] by (simp add: g_def)
      next
        case False
        then show ?thesis by (simp add: g_def)
      qed
      with x have "key (f r) = key (g x)" "g x \<in> set (map g rs)"
        by simp_all
      then have "key (f r) \<in> key ` set (map g rs)"
        by (rule image_eqI)
      with fresh2 show False by contradiction
    qed
    with step gr True show ?thesis by simp
  qed
  then show ?case unfolding g_def .
qed

lemma update_competitors_ok:
  assumes "pk_ok ctor_id (map (\<lambda>c. if sql_eq (ctor_id c) oid
              then c\<lparr>ctor_name := nm, ctor_id := nid, ctor_nationality := nl, ctor_status := st\<rparr>
              else c) t)"
  shows "update_where ctor_id (\<lambda>c. sql_eq (ctor_id c) oid)
           (\<lambda>c. c\<lparr>ctor_name := nm, ctor_id := nid, ctor_nationality := nl, ctor_status := st\<rparr>)
           [] t
         = Inr (map (\<lambda>c. if sql_eq (ctor_id c) oid
              then c\<lparr>ctor_name := nm, ctor_id := nid, ctor_nationality := nl, ctor_status := st\<rparr>
              else c) t)"
  using update_where_ok [of "\<lambda>c. sql_eq (ctor_id c) oid" ctor_id
      "\<lambda>c. c\<lparr>ctor_name := nm, ctor_id := nid, ctor_nationality := nl, ctor_status := st\<rparr>"
      "[]" t] assms
  by simp

lemma update_links_ok:
  assumes "pk_ok link_key (map (\<lambda>cc. if sql_eq (competitor_id cc) oid
              then cc\<lparr>competitor_id := nid\<rparr> else cc) t)"
  shows "update_where link_key (\<lambda>cc. sql_eq (competitor_id cc) oid)
           (\<lambda>cc. cc\<lparr>competitor_id := nid\<rparr>) [] t
         = Inr (map (\<lambda>cc. if sql_eq (competitor_id cc) oid
              then cc\<lparr>competitor_id := nid\<rparr> else cc) t)"
proof -
  have "\<And>r x. sql_eq (competitor_id r) oid \<Longrightarrow> sql_eq (competitor_id x) oid
          \<Longrightarrow> link_key x = link_key (r\<lparr>competitor_id := nid\<rparr>)
          \<Longrightarrow> link_key (x\<lparr>competitor_id := nid\<rparr>) = link_key x"
    by (auto simp add: link_key_def sql_eq_iff split: option.splits)
  from update_where_ok [of "\<lambda>cc. sql_eq (competitor_id cc) oid" link_key
      "\<lambda>cc. cc\<lparr>competitor_id := nid\<rparr>" "[]" t, OF this] assms
  show ?thesis by simp
qed

lemma pk_ok_map:
  assumes same: "\<And>x y. x \<in> set t \<Longrightarrow> y \<in> set t \<Longrightarrow> key (g x) = key (g y)
                   \<Longrightarrow> key (g x) \<noteq> None \<Longrightarrow> key x = key y \<and> key x \<noteq> None"
  shows "pk_ok key t \<Longrightarrow> pk_ok key (map g t)"
  using same
proof (induction t)
  case Nil
  then show ?case by simp
next
  case (Cons r t)
  from Cons.prems(1) have t: "pk_ok key t" and r: "key r = None \<or> key r \<notin> key ` set t"
    using pk_ok_insert_mid [of key "[]" r t] by simp_all
  have "pk_ok key (map g t)"
  proof (rule Cons.IH [OF t])
    fix x y
    assume "x \<in> set t" "y \<in> set t" and *: "key (g x) = key (g y)" "key (g x) \<noteq> None"
    then have "x \<in> set (r # t)" "y \<in> set (r # t)" by simp_all
    then show "key x = key y \<and> key x \<noteq> None"
      using * by (rule Cons.prems(2))
  qed
  moreover have "key (g r) = None \<or> key (g r) \<notin> key ` set (map g t)"
  proof (cases "key (g r) = None")
    case True
    then show ?thesis by (rule disjI1)
  next
    case nn: False
    have "key (g r) \<notin> key ` set (map g t)"
    proof
      assume "key (g r) \<in> key ` set (map g t)"
      then obtain x where x: "x \<in> set t" "key (g r) = key (g x)"
        by auto
      have "r \<in> set (r # t)" "x \<in> set (r # t)" using x(1) by simp_all
      then have "key r = key x \<and> key r \<noteq> None"
        using x(2) nn by (rule Cons.prems(2))
      with x(1) r show False by blast
    qed
    then show ?thesis by (rule disjI2)
  qed
  ultimately show ?case
    using pk_ok_insert_mid [of key "[]" "g r" "map g t"] by simp
qed

lemma pk_ok_rewrite_competitors:
  assumes "pk_ok ctor_id t"
      and "nid = None \<or> nid = oid \<or> nid \<notin> set (map ctor_id t)"
  shows "pk_ok ctor_id (map (\<lambda>c. if sql_eq (ctor_id c) oid
              then c\<lparr>ctor_name := nm, ctor_id := nid, ctor_nationality := nl, ctor_status := st\<rparr>
              else c) t)"
proof (rule pk_ok_map [OF _ assms(1)])
  fix x y
  let ?g = "\<lambda>c. if sql_eq (ctor_id c) oid
              then c\<lparr>ctor_name := nm, ctor_id := nid, ctor_nationality := nl, ctor_status := st\<rparr>
              else c"
  assume xy: "x \<in> set t" "y \<in> set t" and eq: "ctor_id (?g x) = ctor_id (?g y)"
    and nn: "ctor_id (?g x) \<noteq> None"
  have mem: "ctor_id x \<in> set (map ctor_id t)" "ctor_id y \<in> set (map ctor_id t)"
    using xy by simp_all
  show "ctor_id x = ctor_id y \<and> ctor_id x \<noteq> None"
  proof (cases "sql_eq (ctor_id x) oid")
    case hx: True
    show ?thesis
    proof (cases "sql_eq (ctor_id y) oid")
      case True
      with hx show ?thesis by (auto simp add: sql_eq_iff)
    next
      case False
      with hx eq nn have "ctor_id y = nid" "nid \<noteq> None" by auto
      with assms(2) mem(2) have "nid = oid" by auto
      with \<open>ctor_id y = nid\<close> \<open>nid \<noteq> None\<close> False show ?thesis
        by (auto simp add: sql_eq_iff)
    qed
  next
    case nx: False
    show ?thesis
    proof (cases "sql_eq (ctor_id y) oid")
      case True
      with nx eq nn have "ctor_id x = nid" "nid \<noteq> None" by auto
      with assms(2) mem(1) have "nid = oid" by auto
      with \<open>ctor_id x = nid\<close> \<open>nid \<noteq> None\<close> nx show ?thesis
        by (simp add: sql_eq_iff)
    next
      case False
      with nx eq nn show ?thesis by auto
    qed
  qed
qed


lemma link_rewritten_eq:
  fixes x y :: competition_competitor
  assumes "competition_name y = competition_name x" and "competitor_id y = nid"
  shows "y = x\<lparr>competitor_id := nid\<rparr>"
  using assms by (cases x, cases y) simp

lemma pk_ok_rewrite_links:
  assumes ok: "pk_ok link_key t"
      and free: "nid = None \<or> nid = oid
                 \<or> (\<forall>cc\<in>set t. competitor_id cc = oid \<longrightarrow>
                       competition_name cc = None \<or> cc\<lparr>competitor_id := nid\<rparr> \<notin> set t)"
  shows "pk_ok link_key (map (\<lambda>cc. if sql_eq (competitor_id cc) oid
              then cc\<lparr>competitor_id := nid\<rparr> else cc) t)"
proof (rule pk_ok_map [OF _ ok])
  let ?h = "\<lambda>cc. if sql_eq (competitor_id cc) oid then cc\<lparr>competitor_id := nid\<rparr> else cc"
  have clash: False
    if x: "x \<in> set t" "sql_eq (competitor_id x) oid"
      and y: "y \<in> set t" "\<not> sql_eq (competitor_id y) oid"
      and k: "link_key (x\<lparr>competitor_id := nid\<rparr>) = Some (a, b)" "link_key y = Some (a, b)"
    for x y a b
  proof -
    from k(1) have kx: "competition_name x = Some a" "nid = Some b"
      by (simp_all add: link_key_Some_iff)
    from k(2) have ky: "competition_name y = Some a" "competitor_id y = Some b"
      by (simp_all add: link_key_Some_iff)
    from x(2) have ox: "competitor_id x = oid" by (simp add: sql_eq_iff)
    from y(2) ky(2) kx(2) have "nid \<noteq> oid" by (auto simp add: sql_eq_iff)
    with free kx(2) have
      "\<forall>cc\<in>set t. competitor_id cc = oid \<longrightarrow>
          competition_name cc = None \<or> cc\<lparr>competitor_id := nid\<rparr> \<notin> set t"
      by blast
    with x(1) ox kx(1) have "x\<lparr>competitor_id := nid\<rparr> \<notin> set t" by auto
    moreover have "y = x\<lparr>competitor_id := nid\<rparr>"
      using kx ky by (intro link_rewritten_eq) simp_all
    ultimately show False using y(1) by simp
  qed
  fix x y
  assume xy: "x \<in> set t" "y \<in> set t" and eq: "link_key (?h x) = link_key (?h y)"
    and nn: "link_key (?h x) \<noteq> None"
  from nn obtain a b where kx: "link_key (?h x) = Some (a, b)" by auto
  with eq have ky: "link_key (?h y) = Some (a, b)" by simp
  show "link_key x = link_key y \<and> link_key x \<noteq> None"
  proof (cases "sql_eq (competitor_id x) oid")
    case hx: True
    show ?thesis
    proof (cases "sql_eq (competitor_id y) oid")
      case hy: True
      from hx kx have "competition_name x = Some a" by (simp add: link_key_Some_iff)
      moreover from hy ky have "competition_name y = Some a" by (simp add: link_key_Some_iff)
      moreover from hx hy obtain c where "competitor_id x = Some c" "competitor_id y = Some c"
        by (auto simp add: sql_eq_iff)
      ultimately have "link_key x = Some (a, c)" "link_key y = Some (a, c)"
        by (simp_all add: link_key_Some_iff)
      then show ?thesis by simp
    next
      case hy: False
      from hx kx have "link_key (x\<lparr>competitor_id := nid\<rparr>) = Some (a, b)" by simp
      moreover from hy ky have "link_key y = Some (a, b)" by simp
      ultimately have False using clash xy hx hy by blast
      then show ?thesis ..
    qed
  next
    case nx: False
    show ?thesis
    proof (cases "sql_eq (competitor_id y) oid")
      case hy: True
      from hy ky have "link_key (y\<lparr>competitor_id := nid\<rparr>) = Some (a, b)" by simp
      moreover from nx kx have "link_key x = Some (a, b)" by simp
      ultimately have False using clash xy nx hy by blast
      then show ?thesis ..
    next
      case hy: False
      with nx kx ky show ?thesis by simp
    qed
  qed
qed

text \<open>
  C1, as amended. \<open>POST /api/competitors/edit\<close> with a body that carries the five
  fields, on a store whose tables respect their primary keys, when the new id is NULL,
  or equal to the original id, or else is no competitor's id and rewriting an
  association row of the original id never yields a row that is already there: the
  answer is \<open>success: true\<close>; every competitor row with the original id now has the
  new name, id, nationality and status; every association row that named the original
  id now names the new id; all other rows are as before. If a competitor row had the
  original id and a competition was linked to it, the listing of that competition
  then holds the new name and nationality (for a new id that is a text); and when the
  new id differs from the original one, no row of either table carries the original
  id any more.
\<close>

theorem edit_competitor_rewrites_id:
  fixes data :: json and db :: database and nm nid nl st oid :: sqltext
  defines "g \<equiv> \<lambda>c. if sql_eq (ctor_id c) oid
                    then c\<lparr>ctor_name := nm, ctor_id := nid, ctor_nationality := nl,
                           ctor_status := st\<rparr>
                    else c"
      and "h \<equiv> \<lambda>cc. if sql_eq (competitor_id cc) oid then cc\<lparr>competitor_id := nid\<rparr> else cc"
  assumes "and_then (py_index data ''new_name'') bind_text = Inr nm"
      and "and_then (py_index data ''new_id'') bind_text = Inr nid"
      and "and_then (py_index data ''new_nationality'') bind_text = Inr nl"
      and "and_then (py_index data ''new_status'') bind_text = Inr st"
      and "and_then (py_index data ''original_id'') bind_text = Inr oid"
      and "pk_ok ctor_id (competitors db)"
      and "pk_ok link_key (competition_competitors db)"
      and "nid = None \<or> nid = oid \<or> nid \<notin> set (map ctor_id (competitors db))"
      and "nid = None \<or> nid = oid
           \<or> (\<forall>cc\<in>set (competition_competitors db). competitor_id cc = oid \<longrightarrow>
                 competition_name cc = None
                 \<or> cc\<lparr>competitor_id := nid\<rparr> \<notin> set (competition_competitors db))"
  shows "edit_competitor data db
         = ((200, Result True ''Competitor updated successfully.''),
            db\<lparr>competitors := map g (competitors db),
               competition_competitors := map h (competition_competitors db)\<rparr>)
       \<and> (oid = Some a \<and> nid = Some b
          \<and> Some a \<in> set (map ctor_id (competitors db))
          \<and> \<lparr>competition_name = Some cname, competitor_id = Some a\<rparr>
              \<in> set (competition_competitors db)
          \<longrightarrow> (\<exists>rows. get_competition_competitors cname (snd (edit_competitor data db))
                         = (200, NameNationalityList rows)
                     \<and> (nm, nl) \<in> set rows))
       \<and> (oid = Some a \<and> nid \<noteq> Some a
          \<longrightarrow> Some a \<notin> set (map ctor_id (competitors (snd (edit_competitor data db))))
            \<and> Some a \<notin> set (map competitor_id
                               (competition_competitors (snd (edit_competitor data db)))))"
proof -
  let ?db' = "db\<lparr>competitors := map g (competitors db),
               competition_competitors := map h (competition_competitors db)\<rparr>"
  from assms(3-7) obtain jn ji jl js jo where fields:
    "py_index data ''new_name'' = Inr jn" "bind_text jn = Inr nm"
    "py_index data ''new_id'' = Inr ji" "bind_text ji = Inr nid"
    "py_index data ''new_nationality'' = Inr jl" "bind_text jl = Inr nl"
    "py_index data ''new_status'' = Inr js" "bind_text js = Inr st"
    "py_index data ''original_id'' = Inr jo" "bind_text jo = Inr oid"
    unfolding and_then_Inr_iff by blast
  have pk1: "pk_ok ctor_id (map g (competitors db))"
    unfolding g_def using assms(8,10) by (rule pk_ok_rewrite_competitors)
  have pk2: "pk_ok link_key (map h (competition_competitors db))"
    unfolding h_def using assms(9,11) by (rule pk_ok_rewrite_links)
  have u1: "sql_update_competitors jn ji jl js jo db
            = Inr (db\<lparr>competitors := map g (competitors db)\<rparr>)"
    using fields update_competitors_ok [OF pk1 [unfolded g_def]]
    by (simp add: sql_update_competitors_def g_def)
  have u2: "sql_update_competition_competitors ji jo (db\<lparr>competitors := map g (competitors db)\<rparr>)
            = Inr ?db'"
    using fields update_links_ok [OF pk2 [unfolded h_def]]
    by (simp add: sql_update_competition_competitors_def h_def)
  have res: "edit_competitor data db
             = ((200, Result True ''Competitor updated successfully.''), ?db')"
    using fields u1 u2 by (simp add: edit_competitor_def)
  have listing: "\<exists>rows. get_competition_competitors cname ?db' = (200, NameNationalityList rows)
                     \<and> (nm, nl) \<in> set rows"
    if "oid = Some a" "nid = Some b" "Some a \<in> set (map ctor_id (competitors db))"
       "\<lparr>competition_name = Some cname, competitor_id = Some a\<rparr>
          \<in> set (competition_competitors db)"
  proof -
    from that(3) obtain c where c: "c \<in> set (competitors db)" "ctor_id c = Some a"
      by auto
    define c' where "c' = c\<lparr>ctor_name := nm, ctor_id := nid, ctor_nationality := nl,
                            ctor_status := st\<rparr>"
    define cc' where "cc' = \<lparr>competition_name = Some cname, competitor_id = Some b\<rparr>"
    have "g c = c'"
      using c(2) that(1) by (simp add: g_def c'_def)
    then have 1: "c' \<in> set (map g (competitors db))"
      using c(1) by (metis image_eqI list.set_map)
    have "h \<lparr>competition_name = Some cname, competitor_id = Some a\<rparr> = cc'"
      using that(1,2) by (simp add: h_def cc'_def)
    then have 2: "cc' \<in> set (map h (competition_competitors db))"
      using that(4) by (metis image_eqI list.set_map)
    have 3: "competition_name cc' = Some cname"
      by (simp add: cc'_def)
    have 4: "sql_eq (ctor_id c') (competitor_id cc')"
      using that(2) by (simp add: c'_def cc'_def)
    from 2 have 2: "cc' \<in> set (competition_competitors_index
                               (map h (competition_competitors db)))"
      by simp
    have "(ctor_name c', ctor_nationality c')
        \<in> set [(ctor_name c, ctor_nationality c).
                 cc \<leftarrow> competition_competitors_index (map h (competition_competitors db)),
                 sql_eq (competition_name cc) (Some cname),
                 c \<leftarrow> map g (competitors db), sql_eq (ctor_id c) (competitor_id cc)]"
      using 2 3 1 4 by (rule join_member)
    moreover have "ctor_name c' = nm" "ctor_nationality c' = nl"
      by (simp_all add: c'_def)
    ultimately have "(nm, nl)
        \<in> set [(ctor_name c, ctor_nationality c).
                 cc \<leftarrow> competition_competitors_index (map h (competition_competitors db)),
                 sql_eq (competition_name cc) (Some cname),
                 c \<leftarrow> map g (competitors db), sql_eq (ctor_id c) (competitor_id cc)]"
      by simp
    then show ?thesis
      by (simp add: get_competition_competitors_def)
  qed
  have gone: "Some a \<notin> set (map ctor_id (competitors ?db'))
            \<and> Some a \<notin> set (map competitor_id (competition_competitors ?db'))"
    if "oid = Some a" "nid \<noteq> Some a"
    using that by (auto simp add: g_def h_def split: if_splits)
  from res listing gone show ?thesis by simp
qed

theorem edit_competitor_rewrites_id_witness:
  "edit_competitor rename_001_to_099 seeded
     = ((200, Result True ''Competitor updated successfully.''),
        seeded\<lparr>competitors :=
                 [\<lparr>ctor_id = Some ''COMP-099'', ctor_name = Some ''Alex Smith'',
                   ctor_nationality = Some ''Canadian'', ctor_status = Some ''Active''\<rparr>,
                  \<lparr>ctor_id = Some ''COMP-002'', ctor_name = Some ''Maria Garcia'',
                   ctor_nationality = Some ''Spanish'', ctor_status = Some ''Active''\<rparr>,
                  \<lparr>ctor_id = Some ''COMP-003'', ctor_name = Some ''Kenji Tanaka'',
                   ctor_nationality = Some ''Japanese'', ctor_status = Some ''Active''\<rparr>],
               competition_competitors :=
                 [\<lparr>competition_name = Some ''Winter Grand Prix'', competitor_id = Some ''COMP-099''\<rparr>,
                  \<lparr>competition_name = Some ''Winter Grand Prix'', competitor_id = Some ''COMP-002''\<rparr>,
                  \<lparr>competition_name = Some ''Spring Cup Championship'', competitor_id = Some ''COMP-099''\<rparr>,
                  \<lparr>competition_name = Some ''Summer Open'', competitor_id = Some ''COMP-003''\<rparr>]\<rparr>)
   \<and> (\<exists>rows. get_competition_competitors ''Winter Grand Prix''
              (snd (edit_competitor rename_001_to_099 seeded))
            = (200, NameNationalityList rows)
          \<and> set rows = {(Some ''Alex Smith'', Some ''Canadian''),
                         (Some ''Maria Garcia'', Some ''Spanish'')})
   \<and> Some ''COMP-001''
       \<notin> set (map ctor_id (competitors (snd (edit_competitor rename_001_to_099 seeded))))
   \<and> Some ''COMP-001''
       \<notin> set (map competitor_id
                 (competition_competitors (snd (edit_competitor rename_001_to_099 seeded))))"
  using edit_competitor_rewrites_id
    [where data = rename_001_to_099 and db = seeded and nm = "Some ''Alex Smith''"
       and nid = "Some ''COMP-099''" and nl = "Some ''Canadian''" and st = "Some ''Active''"
       and oid = "Some ''COMP-001''" and a = "''COMP-001''" and b = "''COMP-099''"
       and cname = "''Winter Grand Prix''"]
  by (auto simp add: rename_001_to_099_def sample_defs pk_ok_def link_key_def
      get_competition_competitors_def competition_competitors_index_def)

text \<open>
  C1 as first stated fails. "COMP-001" is a competitor of the default dataset;
  editing its id to "COMP-002", the id of another competitor, is answered with
  \<open>success: false\<close> and changes no row. The same happens when the new id is free
  among the competitors but a competition of the old id is already linked to it.
\<close>

theorem edit_competitor_id_collision:
  "Some ''COMP-001'' \<in> set (map ctor_id (competitors seeded))
   \<and> edit_competitor rename_001_to_002 seeded = ((200, ExnResult [] IntegrityError), seeded)
   \<and> Some ''COMP-001'' \<in> set (map ctor_id (competitors winter_linked_099))
   \<and> Some ''COMP-099'' \<notin> set (map ctor_id (competitors winter_linked_099))
   \<and> edit_competitor rename_001_to_099 winter_linked_099
     = ((200, ExnResult [] IntegrityError), winter_linked_099)"
  by (simp add: rename_001_to_002_def rename_001_to_099_def winter_linked_099_def sample_defs
      edit_competitor_def sql_update_competitors_def sql_update_competition_competitors_def
      add_competitor_to_competition_def sql_insert_competition_competitors_def insert_row_def
      pk_conflict_def link_key_def)

section \<open>Signing up and logging in\<close>

text \<open>
  X2. Signing up twice with the same password, given as a text or a number: the
  second call answers \<open>success: false\<close>, "User already exists.".
\<close>

theorem signup_twice_rejected:
  assumes "and_then (py_get body ''password'') bind_text = Inr (Some p)"
  shows "fst (signup body (snd (signup body db))) = (200, Result False ''User already exists.'')"
proof -
  from assms obtain j where j: "py_get body ''password'' = Inr j" "bind_text j = Inr (Some p)"
    unfolding and_then_Inr_iff by blast
  let ?r = "\<lparr>password = Some p, role = Some ''general''\<rparr>"
  have reject: "fst (signup body d) = (200, Result False ''User already exists.'')"
    if "Some p \<in> set (map password (users d))" for d
  proof -
    have "pk_conflict password ?r (users d)"
      by (rule pk_conflict_member [OF _ that]) simp
    with j show ?thesis
      by (simp add: signup_def sql_insert_users_def insert_user_row_def insert_row_def)
  qed
  show ?thesis
  proof (cases "pk_conflict password ?r (users db)")
    case True
    with j have "snd (signup body db) = db"
      by (simp add: signup_def sql_insert_users_def insert_user_row_def insert_row_def)
    moreover from True have "Some p \<in> set (map password (users db))"
      by (simp add: pk_conflict_def)
    ultimately show ?thesis using reject by simp
  next
    case False
    with j have "snd (signup body db) = db\<lparr>users := users db @ [?r]\<rparr>"
      by (simp add: signup_def sql_insert_users_def insert_user_row_def insert_row_def)
    then have "Some p \<in> set (map password (users (snd (signup body db))))"
      by simp
    then show ?thesis by (rule reject)
  qed
qed

theorem signup_twice_rejected_witness:
  "fst (signup (JObj [(''password'', JStr ''hunter2'')]) seeded)
     = (200, Result True ''User created successfully. You can now log in.'')
   \<and> fst (signup (JObj [(''password'', JStr ''hunter2'')])
            (snd (signup (JObj [(''password'', JStr ''hunter2'')]) seeded)))
     = (200, Result False ''User already exists.'')"
  using signup_twice_rejected [of "JObj [(''password'', JStr ''hunter2'')]" "''hunter2''" seeded]
  by (simp add: signup_def sql_insert_users_def insert_user_row_def insert_row_def
      pk_conflict_def sample_defs)

text \<open>
  X3. \<open>POST /api/login\<close> answers \<open>success: true\<close> with the role of a user row
  whose password is the one of the request when such a row exists, and
  \<open>success: false\<close>, "Invalid password.", when none does; a request without a
  password matches no row.
\<close>

theorem login_iff_row:
  assumes "and_then (py_get body ''password'') bind_text = Inr v"
  shows "(v \<noteq> None \<and> v \<in> set (map password (users db))
            \<longrightarrow> (\<exists>u. u \<in> set (users db) \<and> password u = v
                      \<and> login body db = (200, LoginResult ''Login successful.'' (role u))))
       \<and> (v = None \<or> v \<notin> set (map password (users db))
            \<longrightarrow> login body db = (200, Result False ''Invalid password.''))"
proof (intro conjI impI)
  assume "v \<noteq> None \<and> v \<in> set (map password (users db))"
  then obtain k where k: "v = Some k" "Some k \<in> set (map password (users db))"
    by (cases v) simp_all
  then have "find (\<lambda>u. sql_eq (password u) (Some k)) (users db) \<noteq> None"
    using find_sql_eq_None [of password k "users db"] by blast
  then obtain u where u: "find (\<lambda>u. sql_eq (password u) (Some k)) (users db) = Some u"
    by blast
  then have "u \<in> set (users db) \<and> password u = Some k"
    by (rule find_sql_eq_Some)
  moreover have "login body db = (200, LoginResult ''Login successful.'' (role u))"
    using assms k(1) u by (simp add: login_def)
  ultimately show "\<exists>u. u \<in> set (users db) \<and> password u = v
                      \<and> login body db = (200, LoginResult ''Login successful.'' (role u))"
    using k(1) by blast
next
  assume a: "v = None \<or> v \<notin> set (map password (users db))"
  have "find (\<lambda>u. sql_eq (password u) v) (users db) = None"
  proof (cases v)
    case None
    then show ?thesis by (simp add: find_None_iff)
  next
    case (Some k)
    with a have "Some k \<notin> set (map password (users db))" by simp
    then show ?thesis using Some find_sql_eq_None [of password k "users db"] by simp
  qed
  with assms show "login body db = (200, Result False ''Invalid password.'')"
    by (simp add: login_def)
qed

theorem login_iff_row_witness:
  "login (JObj [(''password'', JStr ''admin'')]) seeded
     = (200, LoginResult ''Login successful.'' (Some ''admin''))
   \<and> login (JObj []) seeded = (200, Result False ''Invalid password.'')"
  using login_iff_row [of "JObj [(''password'', JStr ''admin'')]" "Some ''admin''" seeded]
    login_iff_row [of "JObj []" None seeded]
  by (auto simp add: sample_defs)

end
